theory Spec2Isabelle
  imports Complex_Main
begin

section \<open>Step status tracking (PrintState)\<close>

text \<open>
  The enumerators of the print-level and object-level steps that \<^verbatim>\<open>Print.cpp\<close> names.
  The enum declarations live in \<^verbatim>\<open>Print.hpp\<close>; the numbering below is only used to
  order the deduplicated step vectors, and no result depends on the particular numbering.
\<close>

datatype PrintStep = psWipeTower | psAlertWhenSupportsNeeded | psSkirtBrim | psGCodeExport

datatype PrintObjectStep =
  posSlice | posPerimeters | posInfill | posSupportMaterial | posEstimateCurledExtrusions

fun PrintStep_index :: "PrintStep \<Rightarrow> nat" where
  "PrintStep_index psWipeTower = 0"
| "PrintStep_index psAlertWhenSupportsNeeded = 1"
| "PrintStep_index psSkirtBrim = 2"
| "PrintStep_index psGCodeExport = 3"

fun PrintObjectStep_index :: "PrintObjectStep \<Rightarrow> nat" where
  "PrintObjectStep_index posSlice = 0"
| "PrintObjectStep_index posPerimeters = 1"
| "PrintObjectStep_index posInfill = 2"
| "PrintObjectStep_index posSupportMaterial = 3"
| "PrintObjectStep_index posEstimateCurledExtrusions = 4"

instantiation PrintStep :: linorder
begin

definition less_eq_PrintStep :: "PrintStep \<Rightarrow> PrintStep \<Rightarrow> bool" where
  "less_eq_PrintStep a b = (PrintStep_index a \<le> PrintStep_index b)"

definition less_PrintStep :: "PrintStep \<Rightarrow> PrintStep \<Rightarrow> bool" where
  "less_PrintStep a b = (PrintStep_index a < PrintStep_index b)"

instance
proof
  fix x y :: PrintStep
  show "x \<le> y \<Longrightarrow> y \<le> x \<Longrightarrow> x = y"
    by (cases x; cases y; simp add: less_eq_PrintStep_def)
qed (auto simp: less_eq_PrintStep_def less_PrintStep_def)

end

instantiation PrintObjectStep :: linorder
begin

definition less_eq_PrintObjectStep :: "PrintObjectStep \<Rightarrow> PrintObjectStep \<Rightarrow> bool" where
  "less_eq_PrintObjectStep a b = (PrintObjectStep_index a \<le> PrintObjectStep_index b)"

definition less_PrintObjectStep :: "PrintObjectStep \<Rightarrow> PrintObjectStep \<Rightarrow> bool" where
  "less_PrintObjectStep a b = (PrintObjectStep_index a < PrintObjectStep_index b)"

instance
proof
  fix x y :: PrintObjectStep
  show "x \<le> y \<Longrightarrow> y \<le> x \<Longrightarrow> x = y"
    by (cases x; cases y; simp add: less_eq_PrintObjectStep_def)
qed (auto simp: less_eq_PrintObjectStep_def less_PrintObjectStep_def)

end

definition all_PrintSteps :: "PrintStep list" where
  "all_PrintSteps = [psWipeTower, psAlertWhenSupportsNeeded, psSkirtBrim, psGCodeExport]"

definition all_PrintObjectSteps :: "PrintObjectStep list" where
  "all_PrintObjectSteps =
     [posSlice, posPerimeters, posInfill, posSupportMaterial, posEstimateCurledExtrusions]"

text \<open>
  Modelled from the spec: the status of one step (\<^verbatim>\<open>PrintState\<close> of \<^verbatim>\<open>PrintBase.hpp\<close>, which
  is not among the sources). A status is one of Invalidated, Started, Done, held per step.
\<close>

datatype StepStatus = Invalidated | Started | Done

type_synonym 'step PrintState = "'step \<Rightarrow> StepStatus"

text \<open>
  Modelled from the spec: \<^verbatim>\<open>PrintState::invalidate\<close>. It flips the step to Invalidated and
  reports whether that changed anything; on an already Invalidated step it is a no-op
  reporting "unchanged".
\<close>

definition PrintState_invalidate :: "'step \<Rightarrow> 'step PrintState \<Rightarrow> bool \<times> 'step PrintState" where
  "PrintState_invalidate step st = (st step \<noteq> Invalidated, st(step := Invalidated))"

text \<open>
  Modelled from the spec: \<^verbatim>\<open>PrintState::invalidate_all\<close>, the same for every step of one
  state table.
\<close>

definition PrintState_invalidate_all ::
  "'step list \<Rightarrow> 'step PrintState \<Rightarrow> bool \<times> 'step PrintState" where
  "PrintState_invalidate_all steps st =
     (list_ex (\<lambda>s. st s \<noteq> Invalidated) steps,
      (\<lambda>s. if s \<in> set steps then Invalidated else st s))"

text \<open>Modelled from the spec: \<^verbatim>\<open>PrintState::is_done_unguarded\<close>.\<close>

definition is_done_unguarded :: "'step PrintState \<Rightarrow> 'step \<Rightarrow> bool" where
  "is_done_unguarded st step = (st step = Done)"

section \<open>The job and its entities\<close>

text \<open>
  The data of \<^verbatim>\<open>Print.cpp\<close>, as far as the functions embedded below read or write it.
  Floating-point quantities (\<^verbatim>\<open>double\<close>, \<^verbatim>\<open>float\<close>, \<^verbatim>\<open>coordf_t\<close>) are exact reals here:
  rounding is not part of the model. Scaled coordinates (\<^verbatim>\<open>coord_t\<close>) are integers.
\<close>

type_synonym Point = "int \<times> int"
type_synonym Points = "Point list"
type_synonym Polygon = "Point list"
type_synonym Polygons = "Polygon list"

datatype GCodeFlavor =
  gcfRepRapSprinter | gcfRepRapFirmware | gcfRepetier | gcfMarlinLegacy | gcfMarlinFirmware
  | gcfKlipper | gcfOtherFlavor

datatype MachineLimitsUsage = EmitToGCode | OtherLimitsUsage

datatype DraftShield = dsDisabled | dsLimited | dsEnabled

datatype SupportMaterialStyle = smsOrganic | smsOtherStyle

text \<open>The options of \<^verbatim>\<open>m_config\<close> read by the embedded functions.\<close>

record PrintConfig =
  complete_objects :: bool
  avoid_crossing_perimeters :: bool
  avoid_crossing_curled_overhangs :: bool
  spiral_vase :: bool
  machine_limits_usage :: MachineLimitsUsage
  gcode_flavor :: GCodeFlavor
  max_print_height :: real
  wipe_tower :: bool
  nozzle_diameter :: "real list"
  filament_diameter :: "real list"
  use_relative_e_distances :: bool
  ooze_prevention :: bool
  single_extruder_multi_material :: bool
  use_volumetric_e :: bool
  first_layer_height :: real
  skirts :: int
  skirt_height :: int
  draft_shield :: DraftShield
  skirt_distance :: real
  min_skirt_length :: real
  filament_minimal_purge_on_wipe_tower :: "real list"

text \<open>
  \<^verbatim>\<open>ConfigOptionVector::get_at\<close> (declared in \<^verbatim>\<open>Config.hpp\<close>, which is not among the
  sources): the value at the index, or the first value when the index is out of range.
\<close>

definition get_at :: "'a list \<Rightarrow> nat \<Rightarrow> 'a" where
  "get_at values i = (if i < length values then values ! i else hd values)"

text \<open>
  A configuration seen through \<^verbatim>\<open>ConfigBase::get_abs_value(opt_key, ratio_over)\<close>: the
  absolute value of a float-or-percent option.
\<close>

record ConfigBase =
  get_abs_value :: "string \<Rightarrow> real \<Rightarrow> real"

record PrintObjectConfig = ConfigBase +
  layer_height :: real
  support_material_extruder :: int
  support_material_interface_extruder :: int
  support_material_style :: SupportMaterialStyle
  support_material_contact_distance :: real
  support_material_synchronize_layers :: bool
  raft_layers :: int

text \<open>
  A region: its configuration, and the extruders that
  \<^verbatim>\<open>collect_object_printing_extruders\<close> reports for it.
\<close>

record PrintRegion =
  region_config :: ConfigBase
  printing_extruders :: "nat list"

record SlicingParameters =
  first_print_layer_height :: real
  sp_layer_height :: real
  sp_raft_layers :: nat
  gap_object_support :: real
  gap_support_object :: real

record ExPolygon =
  contour :: Polygon
  holes :: Polygons

record Layer =
  print_z :: real
  lslices :: "ExPolygon list"

text \<open>
  A support layer: its height, and the points that
  \<^verbatim>\<open>support_fills.collect_points\<close> appends.
\<close>

record SupportLayer =
  support_print_z :: real
  support_fills_points :: Points

record PrintInstance =
  shift :: Point

text \<open>
  A print object. Besides its own state table, layers and instances it carries what the
  methods of \<^verbatim>\<open>PrintObject\<close> and \<^verbatim>\<open>ModelObject\<close> called from \<^verbatim>\<open>Print.cpp\<close> report:
  \<^verbatim>\<open>has_support_material()\<close>, \<^verbatim>\<open>has_support()\<close>, \<^verbatim>\<open>has_raft()\<close>,
  \<^verbatim>\<open>model_object()->has_custom_layering()\<close>, whether a volume carries support enforcers,
  the layer height profile of \<^verbatim>\<open>update_layer_height_profile\<close>, the layers of
  \<^verbatim>\<open>generate_object_layers\<close> and the verdict of \<^verbatim>\<open>check_object_layers_fixed\<close>.
\<close>

record PrintObject =
  o_state :: "PrintObjectStep PrintState"
  o_config :: PrintObjectConfig
  m_layers :: "Layer list"
  m_support_layers :: "SupportLayer list"
  m_instances :: "PrintInstance list"
  all_regions :: "PrintRegion list"
  slicing_parameters :: SlicingParameters
  model_object_name :: string
  has_support_material :: bool
  has_support :: bool
  has_raft :: bool
  has_custom_layering :: bool
  volumes_have_enforcers :: "bool list"
  layer_height_profile :: "real list"
  object_layers :: "real list"
  object_layers_fixed :: bool

text \<open>The layer record of the tool ordering, as far as the wipe tower planning reads it.\<close>

record LayerTools =
  lt_print_z :: real
  lt_has_object :: bool
  lt_has_support :: bool
  lt_extruders :: "nat list"
  lt_has_wipe_tower :: bool
  wipe_tower_partitions :: nat
  wipe_tower_layer_height :: real

text \<open>
  The tool ordering: its layers, \<^verbatim>\<open>all_extruders()\<close>, \<^verbatim>\<open>first_extruder()\<close> and the verdict
  of \<^verbatim>\<open>ToolOrdering::has_wipe_tower()\<close>.
\<close>

record ToolOrdering =
  layer_tools :: "LayerTools list"
  all_extruders :: "nat list"
  first_extruder :: nat
  ordering_has_wipe_tower :: bool

text \<open>
  The calls made on the local \<^verbatim>\<open>WipeTower\<close> object, in order. The class itself is
  defined in \<^verbatim>\<open>GCode/WipeTower.cpp\<close>; here it is the record of what was asked of it.
\<close>

datatype WipeTower_call =
  WT_set_extruder nat
  | WT_prime real "nat list"
  | WT_plan_toolchange real real nat nat real
  | WT_generate
  | WT_set_layer real real
  | WT_tool_change_unload

type_synonym WipeTower = "WipeTower_call list"

text \<open>A tool change result is represented by its G-code text.\<close>

type_synonym ToolChangeResult = string

record WipeTowerData =
  tool_ordering :: ToolOrdering
  priming :: "ToolChangeResult list option"
  tool_changes :: "ToolChangeResult list list"
  final_purge :: "ToolChangeResult option"
  used_filament :: "real list"
  number_of_toolchanges :: int
  depth :: real
  brim_width :: real
  height :: real

text \<open>A skirt loop: the loop polygon (split at its first point) and its flow values.\<close>

record ExtrusionLoop =
  loop_polygon :: Polygon
  loop_mm3_per_mm :: real
  loop_width :: real
  loop_height :: real

record Print =
  m_state :: "PrintStep PrintState"
  m_objects :: "PrintObject list"
  m_config :: PrintConfig
  m_skirt :: "ExtrusionLoop list"
  m_skirt_convex_hull :: Points
  m_first_layer_convex_hull :: Points
  m_wipe_tower_data :: WipeTowerData

text \<open>
  \<^verbatim>\<open>Inherited::invalidate_step\<close> and \<^verbatim>\<open>invalidate_all_steps\<close> of the base class act on the
  state table of the \<^verbatim>\<open>Print\<close> itself (\<^verbatim>\<open>PrintState<PrintStep, psCount>\<close>); the objects carry
  their own tables (\<^verbatim>\<open>PrintState<PrintObjectStep, posCount>\<close>).
\<close>

definition Inherited_invalidate_step :: "PrintStep \<Rightarrow> Print \<Rightarrow> bool \<times> Print" where
  "Inherited_invalidate_step step p =
     (let (changed, st) = PrintState_invalidate step (m_state p)
      in (changed, p\<lparr>m_state := st\<rparr>))"

definition invalidate_all_steps :: "Print \<Rightarrow> bool \<times> Print" where
  "invalidate_all_steps p =
     (let (changed, st) = PrintState_invalidate_all all_PrintSteps (m_state p)
      in (changed, p\<lparr>m_state := st\<rparr>))"

text \<open>\<^verbatim>\<open>Print::invalidate_step\<close>: invalidate the step, then propagate to G-code export.\<close>

definition invalidate_step :: "PrintStep \<Rightarrow> Print \<Rightarrow> bool \<times> Print" where
  "invalidate_step step p =
     (let (invalidated, p1) = Inherited_invalidate_step step p
      in if step \<noteq> psGCodeExport
         then (let (b, p2) = Inherited_invalidate_step psGCodeExport p1
               in (invalidated \<or> b, p2))
         else (invalidated, p1))"

text \<open>
  Modelled from the spec: \<^verbatim>\<open>PrintObject::invalidate_step\<close> (\<^verbatim>\<open>PrintObject.cpp\<close> is not among
  the sources). Invalidating an entity-level step flips that step of that entity, does not
  touch sibling entities, and, like the invalidation of any step other than the export step,
  also invalidates the export step of the job.
\<close>

definition PrintObject_invalidate_step :: "PrintObjectStep \<Rightarrow> nat \<Rightarrow> Print \<Rightarrow> bool \<times> Print" where
  "PrintObject_invalidate_step ostep i p =
     (let obj = m_objects p ! i;
          (invalidated, st) = PrintState_invalidate ostep (o_state obj);
          p1 = p\<lparr>m_objects := (m_objects p)[i := obj\<lparr>o_state := st\<rparr>]\<rparr>;
          (b, p2) = invalidate_step psGCodeExport p1
      in (invalidated \<or> b, p2))"

section \<open>Classification of changed configuration keys\<close>

text \<open>
  The parameters which influence the G-code generator only, or which are only notes
  (the static set \<^verbatim>\<open>steps_gcode\<close>), and the key groups of the branches of the
  \<^verbatim>\<open>if\<close> chain, in the order of the source.
\<close>

definition steps_gcode :: "string list" where
  "steps_gcode =
     [''autoemit_temperature_commands'', ''avoid_crossing_perimeters'',
      ''avoid_crossing_perimeters_max_detour'', ''bed_shape'', ''bed_temperature'',
      ''before_layer_gcode'', ''between_objects_gcode'', ''bridge_acceleration'',
      ''bridge_fan_speed'', ''enable_dynamic_fan_speeds'', ''overhang_fan_speed_0'',
      ''overhang_fan_speed_1'', ''overhang_fan_speed_2'', ''overhang_fan_speed_3'',
      ''colorprint_heights'', ''cooling'', ''default_acceleration'', ''deretract_speed'',
      ''disable_fan_first_layers'', ''duplicate_distance'', ''end_gcode'',
      ''end_filament_gcode'', ''external_perimeter_acceleration'', ''extrusion_axis'',
      ''extruder_clearance_height'', ''extruder_clearance_radius'', ''extruder_colour'',
      ''extruder_offset'', ''extrusion_multiplier'', ''fan_always_on'',
      ''fan_below_layer_time'', ''full_fan_speed_layer'', ''filament_colour'',
      ''filament_diameter'', ''filament_density'', ''filament_notes'', ''filament_cost'',
      ''filament_spool_weight'', ''first_layer_acceleration'',
      ''first_layer_acceleration_over_raft'', ''first_layer_bed_temperature'',
      ''first_layer_speed_over_raft'', ''gcode_comments'', ''gcode_label_objects'',
      ''infill_acceleration'', ''layer_gcode'', ''min_fan_speed'', ''max_fan_speed'',
      ''max_print_height'', ''min_print_speed'', ''max_print_speed'',
      ''max_volumetric_speed'', ''max_volumetric_extrusion_rate_slope_positive'',
      ''max_volumetric_extrusion_rate_slope_negative'', ''notes'',
      ''only_retract_when_crossing_perimeters'', ''output_filename_format'',
      ''perimeter_acceleration'', ''post_process'', ''gcode_substitutions'',
      ''printer_notes'', ''retract_before_travel'', ''retract_before_wipe'',
      ''retract_layer_change'', ''retract_length'', ''retract_length_toolchange'',
      ''retract_lift'', ''retract_lift_above'', ''retract_lift_below'',
      ''retract_restart_extra'', ''retract_restart_extra_toolchange'', ''retract_speed'',
      ''single_extruder_multi_material_priming'', ''slowdown_below_layer_time'',
      ''solid_infill_acceleration'', ''standby_temperature_delta'', ''start_gcode'',
      ''start_filament_gcode'', ''toolchange_gcode'', ''top_solid_infill_acceleration'',
      ''travel_acceleration'', ''thumbnails'', ''thumbnails_format'',
      ''use_firmware_retraction'', ''use_relative_e_distances'', ''use_volumetric_e'',
      ''variable_layer_height'', ''wipe'']"

definition steps_ignore :: "string list" where
  "steps_ignore = []"

definition keys_psSkirtBrim :: "string list" where
  "keys_psSkirtBrim =
     [''skirts'', ''skirt_height'', ''draft_shield'', ''skirt_distance'',
      ''min_skirt_length'', ''ooze_prevention'', ''wipe_tower_x'', ''wipe_tower_y'',
      ''wipe_tower_rotation_angle'']"

definition keys_posSlice :: "string list" where
  "keys_posSlice =
     [''first_layer_height'', ''nozzle_diameter'', ''resolution'', ''spiral_vase'']"

definition keys_psWipeTower_psSkirtBrim :: "string list" where
  "keys_psWipeTower_psSkirtBrim =
     [''complete_objects'', ''filament_type'', ''first_layer_temperature'',
      ''filament_loading_speed'', ''filament_loading_speed_start'',
      ''filament_unloading_speed'', ''filament_unloading_speed_start'',
      ''filament_toolchange_delay'', ''filament_cooling_moves'',
      ''filament_minimal_purge_on_wipe_tower'', ''filament_cooling_initial_speed'',
      ''filament_cooling_final_speed'', ''filament_ramming_parameters'',
      ''filament_max_volumetric_speed'', ''gcode_flavor'',
      ''high_current_on_filament_swap'', ''infill_first'',
      ''single_extruder_multi_material'', ''temperature'', ''idle_temperature'',
      ''wipe_tower'', ''wipe_tower_width'', ''wipe_tower_brim_width'',
      ''wipe_tower_cone_angle'', ''wipe_tower_bridging'', ''wipe_tower_extra_spacing'',
      ''wipe_tower_no_sparse_layers'', ''wiping_volumes_matrix'',
      ''parking_pos_retraction'', ''cooling_tube_retraction'', ''cooling_tube_length'',
      ''extra_loading_move'', ''travel_speed'', ''travel_speed_z'',
      ''first_layer_speed'', ''z_offset'']"

definition keys_perimeters_infill_support :: "string list" where
  "keys_perimeters_infill_support =
     [''first_layer_extrusion_width'', ''min_layer_height'', ''max_layer_height'',
      ''gcode_resolution'']"

text \<open>\<^verbatim>\<open>sort_remove_duplicates\<close>: sort the vector, then erase adjacent duplicates.\<close>

definition sort_remove_duplicates :: "('a::linorder) list \<Rightarrow> 'a list" where
  "sort_remove_duplicates vec = remdups_adj (sort vec)"

text \<open>
  The state threaded through the loop over \<^verbatim>\<open>opt_keys\<close>: the vectors \<^verbatim>\<open>steps\<close> and
  \<^verbatim>\<open>osteps\<close>, the flag \<^verbatim>\<open>invalidated\<close>, and the print.
\<close>

type_synonym opt_keys_acc = "PrintStep list \<times> PrintObjectStep list \<times> bool \<times> Print"

text \<open>One iteration of the loop over \<^verbatim>\<open>opt_keys\<close>: the \<^verbatim>\<open>if\<close> chain on one key.\<close>

definition classify_opt_key :: "string \<Rightarrow> opt_keys_acc \<Rightarrow> opt_keys_acc" where
  "classify_opt_key opt_key acc =
     (case acc of (steps, osteps, invalidated, p) \<Rightarrow>
        if opt_key \<in> set steps_gcode then
          (steps @ [psGCodeExport], osteps, invalidated, p)
        else if opt_key \<in> set steps_ignore then
          (steps, osteps, invalidated, p)
        else if opt_key \<in> set keys_psSkirtBrim then
          (steps @ [psSkirtBrim], osteps, invalidated, p)
        else if opt_key \<in> set keys_posSlice then
          (steps, osteps @ [posSlice], invalidated, p)
        else if opt_key \<in> set keys_psWipeTower_psSkirtBrim then
          (steps @ [psWipeTower, psSkirtBrim], osteps, invalidated, p)
        else if opt_key = ''filament_soluble'' then
          (steps @ [psWipeTower], osteps @ [posSupportMaterial], invalidated, p)
        else if opt_key \<in> set keys_perimeters_infill_support then
          (steps @ [psSkirtBrim], osteps @ [posPerimeters, posInfill, posSupportMaterial],
           invalidated, p)
        else if opt_key = ''avoid_crossing_curled_overhangs'' then
          (steps, osteps @ [posEstimateCurledExtrusions], invalidated, p)
        else
          (let (b, p') = invalidate_all_steps p
           in (steps, osteps, invalidated \<or> b, p')))"

fun opt_keys_loop :: "string list \<Rightarrow> opt_keys_acc \<Rightarrow> opt_keys_acc" where
  "opt_keys_loop [] acc = acc"
| "opt_keys_loop (opt_key # opt_keys) acc = opt_keys_loop opt_keys (classify_opt_key opt_key acc)"

text \<open>\<^verbatim>\<open>for (PrintStep step : steps) invalidated |= this->invalidate_step(step);\<close>\<close>

fun invalidate_steps_loop :: "PrintStep list \<Rightarrow> bool \<times> Print \<Rightarrow> bool \<times> Print" where
  "invalidate_steps_loop [] r = r"
| "invalidate_steps_loop (step # steps) (invalidated, p) =
     (let (b, p') = invalidate_step step p
      in invalidate_steps_loop steps (invalidated \<or> b, p'))"

text \<open>
  \<^verbatim>\<open>for (PrintObject *object : m_objects) invalidated |= object->invalidate_step(ostep);\<close>
  The objects are addressed by their position in \<^verbatim>\<open>m_objects\<close>.
\<close>

fun invalidate_objects_loop :: "PrintObjectStep \<Rightarrow> nat list \<Rightarrow> bool \<times> Print \<Rightarrow> bool \<times> Print" where
  "invalidate_objects_loop ostep [] r = r"
| "invalidate_objects_loop ostep (i # idxs) (invalidated, p) =
     (let (b, p') = PrintObject_invalidate_step ostep i p
      in invalidate_objects_loop ostep idxs (invalidated \<or> b, p'))"

fun invalidate_osteps_loop :: "PrintObjectStep list \<Rightarrow> bool \<times> Print \<Rightarrow> bool \<times> Print" where
  "invalidate_osteps_loop [] r = r"
| "invalidate_osteps_loop (ostep # osteps) (invalidated, p) =
     invalidate_osteps_loop osteps
       (invalidate_objects_loop ostep [0..<length (m_objects p)] (invalidated, p))"

text \<open>
  \<^verbatim>\<open>Print::invalidate_state_by_config_options\<close>. The parameter \<^verbatim>\<open>new_config\<close> is unused in
  the source. The result is the returned flag and the print after the call.
\<close>

definition invalidate_state_by_config_options :: "string list \<Rightarrow> Print \<Rightarrow> bool \<times> Print" where
  "invalidate_state_by_config_options opt_keys p =
     (if opt_keys = [] then (False, p)
      else
        (case opt_keys_loop opt_keys ([], [], False, p) of
           (steps, osteps, invalidated, p1) \<Rightarrow>
             invalidate_osteps_loop (sort_remove_duplicates osteps)
               (invalidate_steps_loop (sort_remove_duplicates steps) (invalidated, p1))))"

text \<open>
  A key is unknown to the classifier when it falls through to the last \<^verbatim>\<open>else\<close> branch.
\<close>

definition unknown_key :: "string \<Rightarrow> bool" where
  "unknown_key opt_key \<longleftrightarrow>
     opt_key \<notin> set steps_gcode \<and> opt_key \<notin> set steps_ignore \<and>
     opt_key \<notin> set keys_psSkirtBrim \<and> opt_key \<notin> set keys_posSlice \<and>
     opt_key \<notin> set keys_psWipeTower_psSkirtBrim \<and> opt_key \<noteq> ''filament_soluble'' \<and>
     opt_key \<notin> set keys_perimeters_infill_support \<and>
     opt_key \<noteq> ''avoid_crossing_curled_overhangs''"

text \<open>\<^verbatim>\<open>Print::is_step_done(PrintObjectStep)\<close>: the loop with its early return.\<close>

fun is_step_done_loop :: "PrintObject list \<Rightarrow> PrintObjectStep \<Rightarrow> bool" where
  "is_step_done_loop [] step = True"
| "is_step_done_loop (object # objects) step =
     (if \<not> is_done_unguarded (o_state object) step then False
      else is_step_done_loop objects step)"

definition is_step_done :: "Print \<Rightarrow> PrintObjectStep \<Rightarrow> bool" where
  "is_step_done p step =
     (if m_objects p = [] then False else is_step_done_loop (m_objects p) step)"
section \<open>Used extruders\<close>

text \<open>Conversions of an \<^verbatim>\<open>int\<close> to \<^verbatim>\<open>unsigned int\<close> and to \<^verbatim>\<open>size_t\<close> wrap around.\<close>

definition unsigned_of_int :: "int \<Rightarrow> nat" where
  "unsigned_of_int x = nat (x mod 2 ^ 32)"

definition size_t_of_int :: "int \<Rightarrow> nat" where
  "size_t_of_int x = nat (x mod 2 ^ 64)"

text \<open>\<^verbatim>\<open>Print::object_extruders\<close>.\<close>

definition object_extruders :: "Print \<Rightarrow> nat list" where
  "object_extruders p =
     sort_remove_duplicates
       (concat (map (\<lambda>object. concat (map printing_extruders (all_regions object)))
                    (m_objects p)))"

text \<open>The loop of \<^verbatim>\<open>Print::support_material_extruders\<close> over the objects.\<close>

fun support_material_extruders_loop ::
  "nat \<Rightarrow> PrintObject list \<Rightarrow> nat list \<times> bool \<Rightarrow> nat list \<times> bool" where
  "support_material_extruders_loop num_extruders [] acc = acc"
| "support_material_extruders_loop num_extruders (object # objects)
     (exts, support_uses_current_extruder) =
     (if has_support_material object then
        (let (e1, u1) =
               (if support_material_extruder (o_config object) = 0
                then (exts, True)
                else (let i = (unsigned_of_int (support_material_extruder (o_config object))
                                 + 2 ^ 32 - 1) mod 2 ^ 32
                      in (exts @ [if i \<ge> num_extruders then 0 else i],
                          support_uses_current_extruder)));
             (e2, u2) =
               (if support_material_interface_extruder (o_config object) = 0
                then (e1, True)
                else (let i = (unsigned_of_int
                                 (support_material_interface_extruder (o_config object))
                                 + 2 ^ 32 - 1) mod 2 ^ 32
                      in (e1 @ [if i \<ge> num_extruders then 0 else i], u1)))
         in support_material_extruders_loop num_extruders objects (e2, u2))
      else support_material_extruders_loop num_extruders objects
             (exts, support_uses_current_extruder))"

definition support_material_extruders :: "Print \<Rightarrow> nat list" where
  "support_material_extruders p =
     (let num_extruders = length (nozzle_diameter (m_config p)) mod 2 ^ 32;
          (exts, support_uses_current_extruder) =
             support_material_extruders_loop num_extruders (m_objects p) ([], False)
      in sort_remove_duplicates
           (if support_uses_current_extruder then exts @ object_extruders p
            else exts))"

text \<open>\<^verbatim>\<open>Print::extruders\<close>: the 0-based indices of the used extruders.\<close>

definition extruders :: "Print \<Rightarrow> nat list" where
  "extruders p = sort_remove_duplicates (object_extruders p @ support_material_extruders p)"

section \<open>Wipe tower support\<close>

text \<open>\<^verbatim>\<open>Print::has_wipe_tower\<close>.\<close>

definition has_wipe_tower :: "Print \<Rightarrow> bool" where
  "has_wipe_tower p \<longleftrightarrow>
     \<not> spiral_vase (m_config p) \<and> wipe_tower (m_config p)
     \<and> length (nozzle_diameter (m_config p)) > 1"

section \<open>Pre-flight validation\<close>

text \<open>
  The messages \<^verbatim>\<open>Print::validate\<close> returns, one constructor per message, in the order of
  the source; the empty string (valid) is \<open>None\<close>. The last constructor stands for the
  reads the source makes out of range (undefined behaviour in C++).
\<close>

datatype validate_error =
  Err_all_objects_outside
  | Err_empty_print
  | Err_objects_too_close
  | Err_objects_too_tall
  | Err_avoid_crossing_both
  | Err_spiral_vase_single_object
  | Err_spiral_vase_single_material
  | Err_machine_limits_klipper
  | Err_object_exceeds_height string
  | Err_last_layer_exceeds_height string
  | Err_variable_layer_height_organic
  | Err_wipe_tower_same_nozzle_filament
  | Err_wipe_tower_flavor
  | Err_wipe_tower_relative_e
  | Err_wipe_tower_ooze_prevention
  | Err_wipe_tower_volumetric_e
  | Err_wipe_tower_sequential
  | Err_wipe_tower_equal_layer_heights
  | Err_wipe_tower_equal_raft_layers
  | Err_wipe_tower_same_contact_distance
  | Err_wipe_tower_sliced_equally
  | Err_wipe_tower_same_variable_layer_height
  | Err_differing_nozzle_diameters
  | Err_wipe_tower_soluble_synchronize
  | Err_wipe_tower_non_soluble_current_extruder
  | Err_first_layer_height
  | Err_layer_height
  | Err_extrusion_width_too_low string real real
  | Err_extrusion_width_excessive string real real
  | Err_relative_e_needs_reset
  | Err_g92_in_before_layer_gcode
  | Err_g92_in_layer_gcode
  | Err_undefined_behaviour

text \<open>
  What \<^verbatim>\<open>Print::validate\<close> takes from outside \<^verbatim>\<open>Print.cpp\<close>: the macro \<^verbatim>\<open>EPSILON\<close>, the
  verdicts of the two sequential-printing clearance tests (pure geometry), the predicate
  \<^verbatim>\<open>equal_layering\<close>, and whether the regular expression for \<^verbatim>\<open>G92 E0\<close> matches the two
  custom G-code snippets.
\<close>

record ValidateEnv =
  EPSILON :: real
  sequential_print_horizontal_clearance_valid :: bool
  sequential_print_vertical_clearance_valid :: bool
  equal_layering :: "SlicingParameters \<Rightarrow> SlicingParameters \<Rightarrow> bool"
  before_layer_gcode_resets_extruder :: bool
  layer_gcode_resets_extruder :: bool

definition DBL_MAX :: real where
  "DBL_MAX = (2 - 1 / 2 ^ 52) * 2 ^ 1023"

text \<open>The checks of lines 465 to 497: objects, extruders, sequential printing, options.\<close>

definition validate_options :: "ValidateEnv \<Rightarrow> Print \<Rightarrow> nat list \<Rightarrow> validate_error option" where
  "validate_options env p exts =
     (if m_objects p = [] then Some Err_all_objects_outside
      else if exts = [] then Some Err_empty_print
      else if complete_objects (m_config p)
              \<and> \<not> sequential_print_horizontal_clearance_valid env
        then Some Err_objects_too_close
      else if complete_objects (m_config p)
              \<and> \<not> sequential_print_vertical_clearance_valid env
        then Some Err_objects_too_tall
      else if avoid_crossing_perimeters (m_config p)
              \<and> avoid_crossing_curled_overhangs (m_config p)
        then Some Err_avoid_crossing_both
      else if spiral_vase (m_config p)
              \<and> sum_list (map (\<lambda>object. length (m_instances object)) (m_objects p)) > 1
              \<and> \<not> complete_objects (m_config p)
        then Some Err_spiral_vase_single_object
      else if spiral_vase (m_config p) \<and> length (all_regions (hd (m_objects p))) > 1
        then Some Err_spiral_vase_single_material
      else if machine_limits_usage (m_config p) = EmitToGCode
              \<and> gcode_flavor (m_config p) = gcfKlipper
        then Some Err_machine_limits_klipper
      else None)"

text \<open>Lines 515 to 527: no object exceeds the maximum print height.\<close>

fun validate_max_print_height ::
  "ValidateEnv \<Rightarrow> Print \<Rightarrow> PrintObject list \<Rightarrow> validate_error option" where
  "validate_max_print_height env p [] = None"
| "validate_max_print_height env p (print_object # objects) =
     (let layers = object_layers print_object
      in if layers \<noteq> [] \<and> last layers > max_print_height (m_config p) + EPSILON env then
           (if length layers < 2 then Some Err_undefined_behaviour
            else if 0.5 * (layers ! (length layers - 2) + last layers)
                      > max_print_height (m_config p) + EPSILON env
              then Some (Err_object_exceeds_height (model_object_name print_object))
            else Some (Err_last_layer_exceeds_height (model_object_name print_object)))
         else validate_max_print_height env p objects)"

text \<open>Lines 535 to 542: custom layering is not allowed with Organic supports.\<close>

fun validate_organic_layering :: "PrintObject list \<Rightarrow> validate_error option" where
  "validate_organic_layering [] = None"
| "validate_organic_layering (print_object # objects) =
     (if has_support_material print_object
         \<and> support_material_style (o_config print_object) = smsOrganic
         \<and> has_custom_layering print_object
         \<and> layer_height_profile print_object \<noteq> []
         \<and> \<not> object_layers_fixed print_object
      then Some Err_variable_layer_height_organic
      else validate_organic_layering objects)"

text \<open>
  \<^verbatim>\<open>std::abs(x / y) > bound\<close> on doubles, for a positive finite bound. Division by zero is
  written out: a nonzero numerator gives an infinity, which exceeds the bound, and 0/0 gives
  a NaN, for which the comparison is false.
\<close>

definition abs_quotient_exceeds :: "real \<Rightarrow> real \<Rightarrow> real \<Rightarrow> bool" where
  "abs_quotient_exceeds x y bound = (if y = 0 then x \<noteq> 0 else \<bar>x / y\<bar> > bound)"

text \<open>Lines 549 to 556: all extruders have the same nozzle and filament diameter.\<close>

fun wipe_tower_diameters_loop ::
  "ValidateEnv \<Rightarrow> PrintConfig \<Rightarrow> real \<Rightarrow> real \<Rightarrow> nat list \<Rightarrow> validate_error option" where
  "wipe_tower_diameters_loop env cfg first_nozzle_diam first_filament_diam [] = None"
| "wipe_tower_diameters_loop env cfg first_nozzle_diam first_filament_diam (extruder_idx # rest) =
     (let nozzle_diam = get_at (nozzle_diameter cfg) extruder_idx;
          filament_diam = get_at (filament_diameter cfg) extruder_idx
      in if nozzle_diam - EPSILON env > first_nozzle_diam
            \<or> nozzle_diam + EPSILON env < first_nozzle_diam
            \<or> abs_quotient_exceeds (filament_diam - first_filament_diam) first_filament_diam 0.1
         then Some Err_wipe_tower_same_nozzle_filament
         else wipe_tower_diameters_loop env cfg first_nozzle_diam first_filament_diam rest)"

text \<open>
  Lines 574 to 593: every further object is sliced like the first one; the loop also finds
  the index of the tallest object when custom layering is used.
\<close>

fun wipe_tower_objects_loop ::
  "ValidateEnv \<Rightarrow> PrintObject list \<Rightarrow> SlicingParameters \<Rightarrow> bool \<Rightarrow> nat list \<Rightarrow> nat
     \<Rightarrow> validate_error + nat" where
  "wipe_tower_objects_loop env objs slicing_params0 custom [] tallest_object_idx =
     Inr tallest_object_idx"
| "wipe_tower_objects_loop env objs slicing_params0 custom (i # idxs) tallest_object_idx =
     (let slicing_params = slicing_parameters (objs ! i)
      in if \<bar>first_print_layer_height slicing_params - first_print_layer_height slicing_params0\<bar>
              > EPSILON env
            \<or> \<bar>sp_layer_height slicing_params - sp_layer_height slicing_params0\<bar> > EPSILON env
           then Inl Err_wipe_tower_equal_layer_heights
         else if sp_raft_layers slicing_params \<noteq> sp_raft_layers slicing_params0
           then Inl Err_wipe_tower_equal_raft_layers
         else if gap_object_support slicing_params0 \<noteq> gap_object_support slicing_params
                 \<or> gap_support_object slicing_params0 \<noteq> gap_support_object slicing_params
           then Inl Err_wipe_tower_same_contact_distance
         else if \<not> equal_layering env slicing_params slicing_params0
           then Inl Err_wipe_tower_sliced_equally
         else if custom then
           (let lh = layer_height_profile (objs ! i);
                lh_tallest = layer_height_profile (objs ! tallest_object_idx)
            in if length lh < 2 \<or> length lh_tallest < 2 then Inl Err_undefined_behaviour
               else wipe_tower_objects_loop env objs slicing_params0 custom idxs
                      (if lh ! (length lh - 2) > lh_tallest ! (length lh_tallest - 2)
                       then i else tallest_object_idx))
         else wipe_tower_objects_loop env objs slicing_params0 custom idxs tallest_object_idx)"

text \<open>
  Lines 603 to 613: the \<^verbatim>\<open>while\<close> loop comparing one profile with the profile of the
  tallest object, element by element.
\<close>

function layer_height_profiles_loop ::
  "real \<Rightarrow> real list \<Rightarrow> real list \<Rightarrow> nat \<Rightarrow> validate_error option" where
  "layer_height_profiles_loop eps profile profile_tallest i =
     (if i < length profile \<and> i < length profile_tallest then
        (if i mod 2 = 0 \<and> length profile < 2 then Some Err_undefined_behaviour
         else if i mod 2 = 0 \<and> profile_tallest ! i > profile ! (length profile - 2) then None
         else if \<bar>profile ! i - profile_tallest ! i\<bar> > eps
           then Some Err_wipe_tower_same_variable_layer_height
         else layer_height_profiles_loop eps profile profile_tallest (i + 1))
      else None)"
  by pat_completeness auto
termination
  by (relation "measure (\<lambda>(eps, profile, profile_tallest, i). length profile - i)") auto

text \<open>Lines 596 to 614: the loop over the objects other than the tallest.\<close>

fun layer_height_profiles_objects_loop ::
  "ValidateEnv \<Rightarrow> PrintObject list \<Rightarrow> nat \<Rightarrow> nat list \<Rightarrow> validate_error option" where
  "layer_height_profiles_objects_loop env objs tallest_object_idx [] = None"
| "layer_height_profiles_objects_loop env objs tallest_object_idx (idx_object # idxs) =
     (if idx_object = tallest_object_idx
      then layer_height_profiles_objects_loop env objs tallest_object_idx idxs
      else
        (case layer_height_profiles_loop (0.5 * EPSILON env)
                (layer_height_profile (objs ! idx_object))
                (layer_height_profile (objs ! tallest_object_idx)) 0 of
           Some e \<Rightarrow> Some e
         | None \<Rightarrow> layer_height_profiles_objects_loop env objs tallest_object_idx idxs))"

text \<open>Lines 544 to 617: the preconditions of the wipe tower.\<close>

definition validate_wipe_tower ::
  "ValidateEnv \<Rightarrow> Print \<Rightarrow> nat list \<Rightarrow> bool \<Rightarrow> validate_error option" where
  "validate_wipe_tower env p exts custom =
     (if has_wipe_tower p \<and> m_objects p \<noteq> [] then
        (case wipe_tower_diameters_loop env (m_config p)
                (get_at (nozzle_diameter (m_config p)) (hd exts))
                (get_at (filament_diameter (m_config p)) (hd exts)) exts of
           Some e \<Rightarrow> Some e
         | None \<Rightarrow>
            if gcode_flavor (m_config p) \<noteq> gcfRepRapSprinter
               \<and> gcode_flavor (m_config p) \<noteq> gcfRepRapFirmware
               \<and> gcode_flavor (m_config p) \<noteq> gcfRepetier
               \<and> gcode_flavor (m_config p) \<noteq> gcfMarlinLegacy
               \<and> gcode_flavor (m_config p) \<noteq> gcfMarlinFirmware
               \<and> gcode_flavor (m_config p) \<noteq> gcfKlipper
              then Some Err_wipe_tower_flavor
            else if \<not> use_relative_e_distances (m_config p)
              then Some Err_wipe_tower_relative_e
            else if ooze_prevention (m_config p) \<and> single_extruder_multi_material (m_config p)
              then Some Err_wipe_tower_ooze_prevention
            else if use_volumetric_e (m_config p)
              then Some Err_wipe_tower_volumetric_e
            else if complete_objects (m_config p) \<and> length exts > 1
              then Some Err_wipe_tower_sequential
            else if length (m_objects p) > 1 then
              (case wipe_tower_objects_loop env (m_objects p)
                      (slicing_parameters (hd (m_objects p))) custom
                      [1..<length (m_objects p)] 0 of
                 Inl e \<Rightarrow> Some e
               | Inr tallest_object_idx \<Rightarrow>
                   if custom
                   then layer_height_profiles_objects_loop env (m_objects p) tallest_object_idx
                          [0..<length (m_objects p)]
                   else None)
            else None)
      else None)"

text \<open>
  Lines 621 to 627: the smallest and the largest used nozzle diameter, starting from
  \<^verbatim>\<open>std::numeric_limits<double>::max()\<close> and 0.
\<close>

fun nozzle_diameters_loop :: "PrintConfig \<Rightarrow> nat list \<Rightarrow> real \<times> real \<Rightarrow> real \<times> real" where
  "nozzle_diameters_loop cfg [] acc = acc"
| "nozzle_diameters_loop cfg (extruder_id # rest) (min_nozzle_diameter, max_nozzle_diameter) =
     (let dmr = get_at (nozzle_diameter cfg) extruder_id
      in nozzle_diameters_loop cfg rest
           (min min_nozzle_diameter dmr, max max_nozzle_diameter dmr))"

text \<open>The lambda \<^verbatim>\<open>validate_extrusion_width\<close>; \<open>None\<close> is its result \<^verbatim>\<open>true\<close>.\<close>

definition validate_extrusion_width ::
  "real \<Rightarrow> 'a ConfigBase_scheme \<Rightarrow> string \<Rightarrow> real \<Rightarrow> validate_error option" where
  "validate_extrusion_width max_nozzle_diameter config opt_key layer_height_v =
     (let extrusion_width_min = get_abs_value config opt_key layer_height_v;
          extrusion_width_max = get_abs_value config opt_key layer_height_v
      in if extrusion_width_min = 0 then None
         else if extrusion_width_min \<le> layer_height_v
           then Some (Err_extrusion_width_too_low opt_key extrusion_width_min layer_height_v)
         else if extrusion_width_max \<ge> max_nozzle_diameter * 3
           then Some (Err_extrusion_width_excessive opt_key extrusion_width_max
                        max_nozzle_diameter)
         else None)"

text \<open>Lines 723 to 726: the extrusion widths of every region, one option key after another.\<close>

definition region_extrusion_width_keys :: "string list" where
  "region_extrusion_width_keys =
     [''perimeter_extrusion_width'', ''external_perimeter_extrusion_width'',
      ''infill_extrusion_width'', ''solid_infill_extrusion_width'',
      ''top_infill_extrusion_width'']"

fun validate_regions_loop ::
  "real \<Rightarrow> string \<Rightarrow> real \<Rightarrow> PrintRegion list \<Rightarrow> validate_error option" where
  "validate_regions_loop max_nozzle_diameter opt_key layer_height_v [] = None"
| "validate_regions_loop max_nozzle_diameter opt_key layer_height_v (region # regions) =
     (case validate_extrusion_width max_nozzle_diameter (region_config region) opt_key
             layer_height_v of
        Some err_msg \<Rightarrow> Some err_msg
      | None \<Rightarrow> validate_regions_loop max_nozzle_diameter opt_key layer_height_v regions)"

fun validate_region_keys_loop ::
  "real \<Rightarrow> real \<Rightarrow> PrintRegion list \<Rightarrow> string list \<Rightarrow> validate_error option" where
  "validate_region_keys_loop max_nozzle_diameter layer_height_v regions [] = None"
| "validate_region_keys_loop max_nozzle_diameter layer_height_v regions (opt_key # opt_keys) =
     (case validate_regions_loop max_nozzle_diameter opt_key layer_height_v regions of
        Some err_msg \<Rightarrow> Some err_msg
      | None \<Rightarrow> validate_region_keys_loop max_nozzle_diameter layer_height_v regions opt_keys)"

text \<open>Lines 657 to 678: the checks on an object with support material.\<close>

definition validate_object_support ::
  "ValidateEnv \<Rightarrow> Print \<Rightarrow> real \<Rightarrow> real \<Rightarrow> PrintObject \<Rightarrow> validate_error option" where
  "validate_object_support env p min_nozzle_diameter max_nozzle_diameter object =
     (if has_support_material object then
        (if (support_material_extruder (o_config object) = 0
             \<or> support_material_interface_extruder (o_config object) = 0)
            \<and> max_nozzle_diameter - min_nozzle_diameter > EPSILON env
         then Some Err_differing_nozzle_diameters
         else if has_wipe_tower p \<and> support_material_style (o_config object) \<noteq> smsOrganic then
           (if support_material_contact_distance (o_config object) = 0 then
              (if \<not> support_material_synchronize_layers (o_config object)
               then Some Err_wipe_tower_soluble_synchronize else None)
            else
              (if support_material_extruder (o_config object) \<noteq> 0
                  \<or> support_material_interface_extruder (o_config object) \<noteq> 0
               then Some Err_wipe_tower_non_soluble_current_extruder else None))
         else None)
      else None)"

text \<open>Lines 693 to 726: first layer height, layer height and extrusion widths of an object.\<close>

definition validate_object_heights_widths ::
  "Print \<Rightarrow> real \<Rightarrow> real \<Rightarrow> PrintObject \<Rightarrow> validate_error option" where
  "validate_object_heights_widths p min_nozzle_diameter max_nozzle_diameter object =
     (let first_layer_height_v = first_layer_height (m_config p);
          first_layer_min_nozzle_diameter =
            (if has_raft object then
               (let first_layer_extruder =
                      size_t_of_int
                        ((if raft_layers (o_config object) = 1
                          then support_material_interface_extruder (o_config object)
                          else support_material_extruder (o_config object)) - 1)
                in if first_layer_extruder = 2 ^ 64 - 1 then min_nozzle_diameter
                   else get_at (nozzle_diameter (m_config p)) first_layer_extruder)
             else min_nozzle_diameter);
          layer_height_v = layer_height (o_config object)
      in if first_layer_height_v > first_layer_min_nozzle_diameter
           then Some Err_first_layer_height
         else if layer_height_v > min_nozzle_diameter
           then Some Err_layer_height
         else
           (case validate_extrusion_width max_nozzle_diameter (o_config object)
                   ''extrusion_width'' layer_height_v of
              Some err_msg \<Rightarrow> Some err_msg
            | None \<Rightarrow>
               (case (if has_support object \<or> has_raft object
                      then validate_extrusion_width max_nozzle_diameter (o_config object)
                             ''support_material_extrusion_width'' layer_height_v
                      else None) of
                  Some err_msg \<Rightarrow> Some err_msg
                | None \<Rightarrow>
                    validate_region_keys_loop max_nozzle_diameter layer_height_v
                      (all_regions object) region_extrusion_width_keys)))"

text \<open>
  Lines 656 to 727: the loop over the objects. The last argument and the second component
  of the result are what has been written to the out-parameter \<^verbatim>\<open>warning\<close> so far;
  \<open>warning\<close> tells whether the caller passed one.
\<close>

fun validate_objects_loop ::
  "ValidateEnv \<Rightarrow> Print \<Rightarrow> real \<Rightarrow> real \<Rightarrow> bool \<Rightarrow> PrintObject list \<Rightarrow> string option
     \<Rightarrow> validate_error option \<times> string option" where
  "validate_objects_loop env p min_nozzle_diameter max_nozzle_diameter warning [] written =
     (None, written)"
| "validate_objects_loop env p min_nozzle_diameter max_nozzle_diameter warning
     (object # objects) written =
     (case validate_object_support env p min_nozzle_diameter max_nozzle_diameter object of
        Some e \<Rightarrow> (Some e, written)
      | None \<Rightarrow>
         (let written' =
                (if \<not> has_support object \<and> warning
                    \<and> list_ex (\<lambda>has_enforcers. has_enforcers) (volumes_have_enforcers object)
                 then Some ''_SUPPORTS_OFF'' else written)
          in case validate_object_heights_widths p min_nozzle_diameter max_nozzle_diameter
                    object of
               Some e \<Rightarrow> (Some e, written')
             | None \<Rightarrow>
                 validate_objects_loop env p min_nozzle_diameter max_nozzle_diameter warning
                   objects written'))"

text \<open>Lines 730 to 741: custom G-code against the extruder addressing mode.\<close>

definition validate_layer_gcode :: "ValidateEnv \<Rightarrow> Print \<Rightarrow> validate_error option" where
  "validate_layer_gcode env p =
     (if use_relative_e_distances (m_config p) then
        (if (gcode_flavor (m_config p) = gcfMarlinLegacy
             \<or> gcode_flavor (m_config p) = gcfMarlinFirmware)
            \<and> \<not> before_layer_gcode_resets_extruder env \<and> \<not> layer_gcode_resets_extruder env
         then Some Err_relative_e_needs_reset else None)
      else if before_layer_gcode_resets_extruder env then Some Err_g92_in_before_layer_gcode
      else if layer_gcode_resets_extruder env then Some Err_g92_in_layer_gcode
      else None)"

text \<open>
  \<^verbatim>\<open>Print::validate\<close>: the checks in the order of the source, the first violation wins.
  The result is the message (\<open>None\<close> for the empty string) and what was written to
  \<^verbatim>\<open>warning\<close>.
\<close>

definition validate :: "ValidateEnv \<Rightarrow> bool \<Rightarrow> Print \<Rightarrow> validate_error option \<times> string option" where
  "validate env warning p =
     (let exts = extruders p
      in case validate_options env p exts of
           Some e \<Rightarrow> (Some e, None)
         | None \<Rightarrow>
        (case validate_max_print_height env p (m_objects p) of
           Some e \<Rightarrow> (Some e, None)
         | None \<Rightarrow>
        (case validate_organic_layering (m_objects p) of
           Some e \<Rightarrow> (Some e, None)
         | None \<Rightarrow>
        (case validate_wipe_tower env p exts (list_ex has_custom_layering (m_objects p)) of
           Some e \<Rightarrow> (Some e, None)
         | None \<Rightarrow>
        (case nozzle_diameters_loop (m_config p) exts (DBL_MAX, 0) of
           (min_nozzle_diameter, max_nozzle_diameter) \<Rightarrow>
        (case validate_objects_loop env p min_nozzle_diameter max_nozzle_diameter warning
                (m_objects p) None of
           (Some e, written) \<Rightarrow> (Some e, written)
         | (None, written) \<Rightarrow> (validate_layer_gcode env p, written)))))))"

section \<open>Wipe tower planning\<close>

text \<open>
  What unwinds \<^verbatim>\<open>Print::process\<close> and its stages: the cancellation exception of
  \<^verbatim>\<open>throw_if_canceled\<close>, and the reads the source makes out of range.
\<close>

datatype print_exception = CanceledException | UndefinedBehaviour

text \<open>
  What \<^verbatim>\<open>Print::_make_wipe_tower\<close> takes from outside \<^verbatim>\<open>Print.cpp\<close>. The state \<open>'w\<close> stands
  for the wiping extrusions of the layers, which \<^verbatim>\<open>mark_wiping_extrusions\<close> and
  \<^verbatim>\<open>ensure_perimeters_infills_order\<close> change; \<^verbatim>\<open>mark_wiping_extrusions\<close> also returns the
  volume that is left for the wipe tower. The observers of the \<^verbatim>\<open>WipeTower\<close> object are
  functions of the calls made on it so far.
\<close>

record 'w WipeTowerEnv =
  wt_EPSILON :: real
  wt_canceled :: bool
  extract_wipe_volumes :: "real list list"
  make_tool_ordering :: ToolOrdering
  mark_wiping_extrusions :: "'w \<Rightarrow> LayerTools \<Rightarrow> nat \<Rightarrow> nat \<Rightarrow> real \<Rightarrow> real \<times> 'w"
  ensure_perimeters_infills_order :: "'w \<Rightarrow> LayerTools \<Rightarrow> 'w"
  wt_prime_result :: "WipeTower \<Rightarrow> ToolChangeResult list"
  wt_generate_result :: "WipeTower \<Rightarrow> ToolChangeResult list list"
  wt_get_depth :: "WipeTower \<Rightarrow> real"
  wt_get_brim_width :: "WipeTower \<Rightarrow> real"
  wt_get_wipe_tower_height :: "WipeTower \<Rightarrow> real"
  wt_layer_finished :: "WipeTower \<Rightarrow> bool"
  wt_tool_change_result :: "WipeTower \<Rightarrow> ToolChangeResult"
  wt_get_used_filament :: "WipeTower \<Rightarrow> real list"
  wt_get_number_of_toolchanges :: "WipeTower \<Rightarrow> int"

text \<open>\<^verbatim>\<open>WipeTowerData::clear\<close> (declared in \<^verbatim>\<open>Print.hpp\<close>): everything is reset.\<close>

definition WipeTowerData_clear :: "WipeTowerData \<Rightarrow> WipeTowerData" where
  "WipeTowerData_clear d =
     d\<lparr>tool_ordering := \<lparr>layer_tools = [], all_extruders = [], first_extruder = 0,
                          ordering_has_wipe_tower = False\<rparr>,
       priming := None, tool_changes := [], final_purge := None, used_filament := [],
       number_of_toolchanges := -1, depth := 0, brim_width := 0, height := 0\<rparr>"

text \<open>\<^verbatim>\<open>Print::skirt_first_layer_height\<close>.\<close>

definition skirt_first_layer_height :: "Print \<Rightarrow> real" where
  "skirt_first_layer_height p = first_layer_height (m_config p)"

text \<open>
  Lines 1383 to 1413: the wipe tower layers that print neither object nor support are added
  to the support layers of the first object.
\<close>

definition wipe_tower_only :: "LayerTools \<Rightarrow> bool" where
  "wipe_tower_only lt \<longleftrightarrow> lt_has_wipe_tower lt \<and> \<not> lt_has_object lt \<and> \<not> lt_has_support lt"

fun find_first_wipe_tower_only :: "LayerTools list \<Rightarrow> nat \<Rightarrow> nat option" where
  "find_first_wipe_tower_only [] i = None"
| "find_first_wipe_tower_only (lt # lts) i =
     (if wipe_tower_only lt then Some i else find_first_wipe_tower_only lts (i + 1))"

fun insert_support_layers_loop ::
  "nat list \<Rightarrow> LayerTools list \<times> SupportLayer list \<times> nat
     \<Rightarrow> LayerTools list \<times> SupportLayer list \<times> nat" where
  "insert_support_layers_loop [] st = st"
| "insert_support_layers_loop (i # idxs) (lts, support_layers, it_layer) =
     (let lt = lts ! i
      in if \<not> wipe_tower_only lt then (lts, support_layers, it_layer)
         else
           (let height_v = lt_print_z lt - (if i = 0 then 0 else lt_print_z (lts ! (i - 1)));
                new_layer = \<lparr>support_print_z = lt_print_z lt, support_fills_points = []\<rparr>
            in insert_support_layers_loop idxs
                 (lts[i := lt\<lparr>lt_has_support := True\<rparr>],
                  take it_layer support_layers @ [new_layer] @ drop it_layer support_layers,
                  it_layer + 1)))"

definition insert_wipe_tower_support_layers ::
  "real \<Rightarrow> Print \<Rightarrow> print_exception + Print" where
  "insert_wipe_tower_support_layers eps p =
     (let lts = layer_tools (tool_ordering (m_wipe_tower_data p))
      in case find_first_wipe_tower_only lts 0 of
           None \<Rightarrow> Inr p
         | Some idx_begin \<Rightarrow>
             (case m_objects p of
                [] \<Rightarrow> Inl UndefinedBehaviour
              | front # objects \<Rightarrow>
                  (let wipe_tower_new_layer_print_z_first = lt_print_z (lts ! idx_begin);
                       it_layer =
                         length (takeWhile
                           (\<lambda>l. support_print_z l - eps < wipe_tower_new_layer_print_z_first)
                           (m_support_layers front));
                       (lts', support_layers', it_layer') =
                         insert_support_layers_loop [idx_begin..<length lts]
                           (lts, m_support_layers front, it_layer)
                   in Inr (p\<lparr>m_objects := front\<lparr>m_support_layers := support_layers'\<rparr> # objects,
                              m_wipe_tower_data := (m_wipe_tower_data p)
                                \<lparr>tool_ordering := (tool_ordering (m_wipe_tower_data p))
                                   \<lparr>layer_tools := lts'\<rparr>\<rparr>\<rparr>))))"

text \<open>
  Lines 1437 to 1454: the tool changes of one layer. The state is the current extruder, the
  wipe tower and the wiping extrusions.
\<close>

fun plan_extruders_loop ::
  "'w WipeTowerEnv \<Rightarrow> PrintConfig \<Rightarrow> real list list \<Rightarrow> nat \<Rightarrow> bool \<Rightarrow> LayerTools \<Rightarrow> nat list
     \<Rightarrow> nat \<times> WipeTower \<times> 'w \<Rightarrow> print_exception + nat \<times> WipeTower \<times> 'w" where
  "plan_extruders_loop env cfg wipe_volumes all_extruders_back first_layer lt [] st = Inr st"
| "plan_extruders_loop env cfg wipe_volumes all_extruders_back first_layer lt
     (extruder_id # rest) (current_extruder_id, wipe_tower_v, w) =
     (if (first_layer \<and> extruder_id = all_extruders_back) \<or> extruder_id \<noteq> current_extruder_id
      then
        (if current_extruder_id \<ge> length wipe_volumes
            \<or> extruder_id \<ge> length (wipe_volumes ! current_extruder_id)
         then Inl UndefinedBehaviour
         else
           (let volume_to_wipe = wipe_volumes ! current_extruder_id ! extruder_id;
                volume_to_wipe1 =
                  volume_to_wipe - get_at (filament_minimal_purge_on_wipe_tower cfg) extruder_id;
                (volume_to_wipe2, w') =
                  mark_wiping_extrusions env w lt current_extruder_id extruder_id volume_to_wipe1;
                volume_to_wipe3 =
                  volume_to_wipe2 + get_at (filament_minimal_purge_on_wipe_tower cfg) extruder_id
            in plan_extruders_loop env cfg wipe_volumes all_extruders_back first_layer lt rest
                 (extruder_id,
                  wipe_tower_v @ [WT_plan_toolchange (lt_print_z lt) (wipe_tower_layer_height lt)
                                    current_extruder_id extruder_id volume_to_wipe3],
                  w')))
      else plan_extruders_loop env cfg wipe_volumes all_extruders_back first_layer lt rest
             (current_extruder_id, wipe_tower_v, w))"

text \<open>
  Lines 1433 to 1458: the loop over the layers of the tool ordering. \<open>first_layer\<close> tells
  whether the head of the list is the front of the tool ordering.
\<close>

fun plan_layers_loop ::
  "'w WipeTowerEnv \<Rightarrow> PrintConfig \<Rightarrow> real list list \<Rightarrow> nat \<Rightarrow> bool \<Rightarrow> LayerTools list
     \<Rightarrow> nat \<times> WipeTower \<times> 'w \<Rightarrow> print_exception + nat \<times> WipeTower \<times> 'w" where
  "plan_layers_loop env cfg wipe_volumes all_extruders_back first_layer [] st = Inr st"
| "plan_layers_loop env cfg wipe_volumes all_extruders_back first_layer (lt # rest)
     (current_extruder_id, wipe_tower_v, w) =
     (if \<not> lt_has_wipe_tower lt
      then plan_layers_loop env cfg wipe_volumes all_extruders_back False rest
             (current_extruder_id, wipe_tower_v, w)
      else
        (case plan_extruders_loop env cfg wipe_volumes all_extruders_back first_layer lt
                (lt_extruders lt)
                (current_extruder_id,
                 wipe_tower_v @ [WT_plan_toolchange (lt_print_z lt) (wipe_tower_layer_height lt)
                                   current_extruder_id current_extruder_id 0],
                 w) of
           Inl e \<Rightarrow> Inl e
         | Inr (current_extruder_id', wipe_tower_v', w') \<Rightarrow>
             (let w'' = ensure_perimeters_infills_order env w' lt
              in if rest = [] \<or> wipe_tower_partitions (hd rest) = 0
                 then Inr (current_extruder_id', wipe_tower_v', w'')
                 else plan_layers_loop env cfg wipe_volumes all_extruders_back False rest
                        (current_extruder_id', wipe_tower_v', w''))))"

text \<open>
  Lines 1461 to 1488: the wipe tower is generated and the current filament is unloaded over
  it.
\<close>

definition finish_wipe_tower ::
  "'w WipeTowerEnv \<Rightarrow> Print \<Rightarrow> WipeTower \<Rightarrow> print_exception + Print \<times> WipeTower" where
  "finish_wipe_tower env p wipe_tower_v =
     (let wt1 = wipe_tower_v @ [WT_generate];
          lts = layer_tools (tool_ordering (m_wipe_tower_data p))
      in case m_objects p of
           [] \<Rightarrow> Inl UndefinedBehaviour
         | front # objects \<Rightarrow>
             if lts = [] then Inl UndefinedBehaviour
             else
               (let layer_height_v = layer_height (o_config front);
                    wt2 =
                      (if wipe_tower_partitions (last lts) > 0 then
                         (if wt_layer_finished env wt1
                          then wt1 @ [WT_set_layer (lt_print_z (last lts) + layer_height_v)
                                        layer_height_v]
                          else wt1)
                       else wt1 @ [WT_set_layer (lt_print_z (last lts)) layer_height_v]);
                    wt3 = wt2 @ [WT_tool_change_unload]
                in Inr (p\<lparr>m_wipe_tower_data := (m_wipe_tower_data p)
                            \<lparr>tool_changes := wt_generate_result env wt1,
                             depth := wt_get_depth env wt1,
                             brim_width := wt_get_brim_width env wt1,
                             height := wt_get_wipe_tower_height env wt1,
                             final_purge := Some (wt_tool_change_result env wt3),
                             used_filament := wt_get_used_filament env wt3,
                             number_of_toolchanges := wt_get_number_of_toolchanges env wt3\<rparr>\<rparr>,
                        wt3)))"

text \<open>
  \<^verbatim>\<open>Print::_make_wipe_tower\<close>. The result is the print, the calls made on the local
  \<^verbatim>\<open>WipeTower\<close> object, and the wiping extrusions.
\<close>

definition make_wipe_tower ::
  "'w WipeTowerEnv \<Rightarrow> 'w \<Rightarrow> Print \<Rightarrow> print_exception + Print \<times> WipeTower \<times> 'w" where
  "make_wipe_tower env w p =
     (let p1 = p\<lparr>m_wipe_tower_data := WipeTowerData_clear (m_wipe_tower_data p)\<rparr>
      in if \<not> has_wipe_tower p1 then Inr (p1, [], w)
         else
           (let wipe_volumes = extract_wipe_volumes env;
                p2 = p1\<lparr>m_wipe_tower_data := (m_wipe_tower_data p1)
                          \<lparr>tool_ordering := make_tool_ordering env\<rparr>\<rparr>
            in if \<not> ordering_has_wipe_tower (tool_ordering (m_wipe_tower_data p2))
               then Inr (p2, [], w)
               else
                 (case insert_wipe_tower_support_layers (wt_EPSILON env) p2 of
                    Inl e \<Rightarrow> Inl e
                  | Inr p3 \<Rightarrow>
                      if wt_canceled env then Inl CanceledException
                      else
                        (let ordering = tool_ordering (m_wipe_tower_data p3);
                             wt1 = map WT_set_extruder
                                     [0..<length (nozzle_diameter (m_config p3))];
                             wt2 = wt1 @ [WT_prime (skirt_first_layer_height p3)
                                            (all_extruders ordering)];
                             p4 = p3\<lparr>m_wipe_tower_data := (m_wipe_tower_data p3)
                                       \<lparr>priming := Some (wt_prime_result env wt2)\<rparr>\<rparr>
                         in if all_extruders ordering = [] then Inl UndefinedBehaviour
                            else
                              (case plan_layers_loop env (m_config p4) wipe_volumes
                                      (last (all_extruders ordering)) True
                                      (layer_tools ordering)
                                      (last (all_extruders ordering), wt2, w) of
                                 Inl e \<Rightarrow> Inl e
                               | Inr (current_extruder_id, wt3, w') \<Rightarrow>
                                   (case finish_wipe_tower env p4 wt3 of
                                      Inl e \<Rightarrow> Inl e
                                    | Inr (p5, wt4) \<Rightarrow> Inr (p5, wt4, w')))))))"

section \<open>Skirt\<close>

text \<open>\<^verbatim>\<open>Print::has_infinite_skirt\<close> and \<^verbatim>\<open>Print::has_skirt\<close>.\<close>

definition has_infinite_skirt :: "Print \<Rightarrow> bool" where
  "has_infinite_skirt p \<longleftrightarrow> draft_shield (m_config p) = dsEnabled \<and> skirts (m_config p) > 0"

definition has_skirt :: "Print \<Rightarrow> bool" where
  "has_skirt p \<longleftrightarrow>
     (skirt_height (m_config p) > 0 \<and> skirts (m_config p) > 0) \<or> has_infinite_skirt p"




text \<open>
  Lines 982 to 988: the height of the skirt. The read \<^verbatim>\<open>m_layers[skirt_layers-1]\<close> is out
  of range exactly when \<^verbatim>\<open>skirt_layers\<close> is zero.
\<close>

fun skirt_height_z_loop :: "Print \<Rightarrow> PrintObject list \<Rightarrow> real \<Rightarrow> print_exception + real" where
  "skirt_height_z_loop p [] skirt_height_z = Inr skirt_height_z"
| "skirt_height_z_loop p (object # objects) skirt_height_z =
     (let skirt_layers =
            (if has_infinite_skirt p then length (m_layers object)
             else min (size_t_of_int (skirt_height (m_config p))) (length (m_layers object)))
      in if skirt_layers = 0 then Inl UndefinedBehaviour
         else skirt_height_z_loop p objects
                (max skirt_height_z (print_z (m_layers object ! (skirt_layers - 1)))))"





section \<open>Notions used in the statements\<close>

text \<open>The steps and object steps that one key adds to the vectors of the classifier.\<close>

definition key_steps :: "string \<Rightarrow> PrintStep list" where
  "key_steps opt_key =
     (if opt_key \<in> set steps_gcode then [psGCodeExport]
      else if opt_key \<in> set steps_ignore then []
      else if opt_key \<in> set keys_psSkirtBrim then [psSkirtBrim]
      else if opt_key \<in> set keys_posSlice then []
      else if opt_key \<in> set keys_psWipeTower_psSkirtBrim then [psWipeTower, psSkirtBrim]
      else if opt_key = ''filament_soluble'' then [psWipeTower]
      else if opt_key \<in> set keys_perimeters_infill_support then [psSkirtBrim]
      else [])"

definition key_osteps :: "string \<Rightarrow> PrintObjectStep list" where
  "key_osteps opt_key =
     (if opt_key \<in> set steps_gcode then []
      else if opt_key \<in> set steps_ignore then []
      else if opt_key \<in> set keys_psSkirtBrim then []
      else if opt_key \<in> set keys_posSlice then [posSlice]
      else if opt_key \<in> set keys_psWipeTower_psSkirtBrim then []
      else if opt_key = ''filament_soluble'' then [posSupportMaterial]
      else if opt_key \<in> set keys_perimeters_infill_support
        then [posPerimeters, posInfill, posSupportMaterial]
      else if opt_key = ''avoid_crossing_curled_overhangs'' then [posEstimateCurledExtrusions]
      else [])"

definition batch_steps :: "string list \<Rightarrow> PrintStep list" where
  "batch_steps ks = concat (map key_steps ks)"

definition batch_osteps :: "string list \<Rightarrow> PrintObjectStep list" where
  "batch_osteps ks = concat (map key_osteps ks)"

definition all_invalidated :: "Print \<Rightarrow> Print" where
  "all_invalidated p = p\<lparr>m_state := (\<lambda>_. Invalidated)\<rparr>"

text \<open>A sequence of batches of changed keys, applied one after another.\<close>

definition apply_batches :: "string list list \<Rightarrow> Print \<Rightarrow> Print" where
  "apply_batches batches p =
     fold (\<lambda>opt_keys q. snd (invalidate_state_by_config_options opt_keys q)) batches p"

text \<open>
  The cascade invariant: whenever a step other than the export step is Invalidated, the
  export step is Invalidated.
\<close>

definition cascade_invariant :: "Print \<Rightarrow> bool" where
  "cascade_invariant p \<longleftrightarrow>
     (list_ex (\<lambda>s. s \<noteq> psGCodeExport \<and> m_state p s = Invalidated) all_PrintSteps
        \<longrightarrow> m_state p psGCodeExport = Invalidated)"

text \<open>The messages of \<^verbatim>\<open>Print::validate\<close> that state a precondition of the wipe tower.\<close>

fun is_wipe_tower_error :: "validate_error \<Rightarrow> bool" where
  "is_wipe_tower_error Err_wipe_tower_same_nozzle_filament = True"
| "is_wipe_tower_error Err_wipe_tower_flavor = True"
| "is_wipe_tower_error Err_wipe_tower_relative_e = True"
| "is_wipe_tower_error Err_wipe_tower_ooze_prevention = True"
| "is_wipe_tower_error Err_wipe_tower_volumetric_e = True"
| "is_wipe_tower_error Err_wipe_tower_sequential = True"
| "is_wipe_tower_error Err_wipe_tower_equal_layer_heights = True"
| "is_wipe_tower_error Err_wipe_tower_equal_raft_layers = True"
| "is_wipe_tower_error Err_wipe_tower_same_contact_distance = True"
| "is_wipe_tower_error Err_wipe_tower_sliced_equally = True"
| "is_wipe_tower_error Err_wipe_tower_same_variable_layer_height = True"
| "is_wipe_tower_error Err_wipe_tower_soluble_synchronize = True"
| "is_wipe_tower_error Err_wipe_tower_non_soluble_current_extruder = True"
| "is_wipe_tower_error _ = False"


section \<open>A small job, for the concrete instances\<close>

definition example_config :: PrintConfig where
  "example_config =
     \<lparr>complete_objects = False, avoid_crossing_perimeters = False,
      avoid_crossing_curled_overhangs = False, spiral_vase = False,
      machine_limits_usage = OtherLimitsUsage, gcode_flavor = gcfMarlinFirmware,
      max_print_height = 200, wipe_tower = True, nozzle_diameter = [0.4, 0.4],
      filament_diameter = [1.75, 1.75], use_relative_e_distances = True,
      ooze_prevention = False, single_extruder_multi_material = True,
      use_volumetric_e = False, first_layer_height = 0.2, skirts = 1, skirt_height = 1,
      draft_shield = dsDisabled, skirt_distance = 2, min_skirt_length = 0,
      filament_minimal_purge_on_wipe_tower = [15, 15]\<rparr>"

definition example_region :: PrintRegion where
  "example_region =
     \<lparr>region_config = \<lparr>get_abs_value = (\<lambda>opt_key ratio_over.
          if opt_key = ''perimeter_extrusion_width'' then 0.45 else 0)\<rparr>,
      printing_extruders = [0, 1]\<rparr>"

definition example_object :: PrintObject where
  "example_object =
     \<lparr>o_state = (\<lambda>_. Done),
      o_config = \<lparr>get_abs_value = (\<lambda>opt_key ratio_over. 0), layer_height = 0.2,
                  support_material_extruder = 1, support_material_interface_extruder = 1,
                  support_material_style = smsOtherStyle,
                  support_material_contact_distance = 0.2,
                  support_material_synchronize_layers = False, raft_layers = 0\<rparr>,
      m_layers = [\<lparr>print_z = 0.2, lslices = []\<rparr>],
      m_support_layers = [],
      m_instances = [\<lparr>shift = (0, 0)\<rparr>],
      all_regions = [example_region],
      slicing_parameters = \<lparr>first_print_layer_height = 0.2, sp_layer_height = 0.2,
                              sp_raft_layers = 0, gap_object_support = 0,
                              gap_support_object = 0\<rparr>,
      model_object_name = ''cube'',
      has_support_material = False, has_support = False, has_raft = False,
      has_custom_layering = False, volumes_have_enforcers = [False],
      layer_height_profile = [0, 0.2, 10, 0.2],
      object_layers = [0, 0.2],
      object_layers_fixed = True\<rparr>"

definition example_print :: Print where
  "example_print =
     \<lparr>m_state = (\<lambda>_. Done), m_objects = [example_object], m_config = example_config,
      m_skirt = [], m_skirt_convex_hull = [], m_first_layer_convex_hull = [],
      m_wipe_tower_data =
        \<lparr>tool_ordering = \<lparr>layer_tools = [], all_extruders = [], first_extruder = 0,
                            ordering_has_wipe_tower = False\<rparr>,
         priming = None, tool_changes = [], final_purge = None, used_filament = [],
         number_of_toolchanges = -1, depth = 0, brim_width = 0, height = 0\<rparr>\<rparr>"

definition example_validate_env :: ValidateEnv where
  "example_validate_env =
     \<lparr>EPSILON = 1 / 10000, sequential_print_horizontal_clearance_valid = True,
      sequential_print_vertical_clearance_valid = True,
      equal_layering = (\<lambda>a b. True),
      before_layer_gcode_resets_extruder = False, layer_gcode_resets_extruder = True\<rparr>"


text \<open>
  A collaborator for the wipe tower planning that absorbs the entire requested volume, a
  tool ordering of two layers with two extruders, and wiping volumes of 140.
\<close>

definition example_layer_tools :: "LayerTools list" where
  "example_layer_tools =
     [\<lparr>lt_print_z = 0.2, lt_has_object = True, lt_has_support = False, lt_extruders = [0, 1],
       lt_has_wipe_tower = True, wipe_tower_partitions = 1, wipe_tower_layer_height = 0.2\<rparr>,
      \<lparr>lt_print_z = 0.4, lt_has_object = True, lt_has_support = False, lt_extruders = [1, 0],
       lt_has_wipe_tower = True, wipe_tower_partitions = 1, wipe_tower_layer_height = 0.2\<rparr>]"

definition example_wipe_tower_env :: "unit WipeTowerEnv" where
  "example_wipe_tower_env =
     \<lparr>wt_EPSILON = 1 / 10000, wt_canceled = False,
      extract_wipe_volumes = [[0, 140], [140, 0]],
      make_tool_ordering =
        \<lparr>layer_tools = example_layer_tools, all_extruders = [0, 1], first_extruder = 0,
         ordering_has_wipe_tower = True\<rparr>,
      mark_wiping_extrusions = (\<lambda>w lt old_tool new_tool volume_to_wipe. (0, w)),
      ensure_perimeters_infills_order = (\<lambda>w lt. w),
      wt_prime_result = (\<lambda>wt. []),
      wt_generate_result = (\<lambda>wt. [[''T1''], [''T0'']]),
      wt_get_depth = (\<lambda>wt. 20),
      wt_get_brim_width = (\<lambda>wt. 2),
      wt_get_wipe_tower_height = (\<lambda>wt. 0.4),
      wt_layer_finished = (\<lambda>wt. True),
      wt_tool_change_result = (\<lambda>wt. ''unload''),
      wt_get_used_filament = (\<lambda>wt. [10, 10]),
      wt_get_number_of_toolchanges = (\<lambda>wt. 2)\<rparr>"

text \<open>Variants of the small job: absolute extruder addressing, no wipe tower, thin nozzles.\<close>

definition example_print_absolute_e :: Print where
  "example_print_absolute_e =
     example_print\<lparr>m_config := example_config\<lparr>use_relative_e_distances := False\<rparr>\<rparr>"

definition example_print_no_wipe_tower :: Print where
  "example_print_no_wipe_tower =
     example_print\<lparr>m_config := example_config\<lparr>wipe_tower := False\<rparr>\<rparr>"




section \<open>The fields of the small job\<close>

lemma example_print_fields:
  "m_state example_print = (\<lambda>_. Done)" "m_objects example_print = [example_object]"
  "m_config example_print = example_config" "m_skirt example_print = []"
  "m_skirt_convex_hull example_print = []" "m_first_layer_convex_hull example_print = []"
  "tool_changes (m_wipe_tower_data example_print) = []"
  by (simp_all add: example_print_def)

lemma example_config_fields:
  "complete_objects example_config = False"
  "avoid_crossing_perimeters example_config = False"
  "avoid_crossing_curled_overhangs example_config = False"
  "spiral_vase example_config = False"
  "machine_limits_usage example_config = OtherLimitsUsage"
  "gcode_flavor example_config = gcfMarlinFirmware"
  "max_print_height example_config = 200"
  "wipe_tower example_config = True"
  "nozzle_diameter example_config = [0.4, 0.4]"
  "filament_diameter example_config = [1.75, 1.75]"
  "use_relative_e_distances example_config = True"
  "ooze_prevention example_config = False"
  "single_extruder_multi_material example_config = True"
  "use_volumetric_e example_config = False"
  "first_layer_height example_config = 0.2"
  "skirts example_config = 1"
  "skirt_height example_config = 1"
  "draft_shield example_config = dsDisabled"
  "skirt_distance example_config = 2"
  "min_skirt_length example_config = 0"
  "filament_minimal_purge_on_wipe_tower example_config = [15, 15]"
  by (simp_all add: example_config_def)

lemma example_region_fields:
  "get_abs_value (region_config example_region) =
     (\<lambda>opt_key ratio_over. if opt_key = ''perimeter_extrusion_width'' then 0.45 else 0)"
  "printing_extruders example_region = [0, 1]"
  by (simp_all add: example_region_def)

lemma example_object_fields:
  "o_state example_object = (\<lambda>_. Done)"
  "get_abs_value (o_config example_object) = (\<lambda>opt_key ratio_over. 0)"
  "layer_height (o_config example_object) = 0.2"
  "support_material_extruder (o_config example_object) = 1"
  "support_material_interface_extruder (o_config example_object) = 1"
  "support_material_style (o_config example_object) = smsOtherStyle"
  "support_material_contact_distance (o_config example_object) = 0.2"
  "support_material_synchronize_layers (o_config example_object) = False"
  "raft_layers (o_config example_object) = 0"
  "m_layers example_object = [\<lparr>print_z = 0.2, lslices = []\<rparr>]"
  "m_support_layers example_object = []"
  "m_instances example_object = [\<lparr>shift = (0, 0)\<rparr>]"
  "all_regions example_object = [example_region]"
  "model_object_name example_object = ''cube''"
  "has_support_material example_object = False"
  "has_support example_object = False"
  "has_raft example_object = False"
  "has_custom_layering example_object = False"
  "volumes_have_enforcers example_object = [False]"
  "layer_height_profile example_object = [0, 0.2, 10, 0.2]"
  "object_layers example_object = [0, 0.2]"
  "object_layers_fixed example_object = True"
  by (simp_all add: example_object_def)

lemma example_validate_env_fields:
  "EPSILON example_validate_env = 1 / 10000"
  "sequential_print_horizontal_clearance_valid example_validate_env = True"
  "sequential_print_vertical_clearance_valid example_validate_env = True"
  "equal_layering example_validate_env = (\<lambda>a b. True)"
  "before_layer_gcode_resets_extruder example_validate_env = False"
  "layer_gcode_resets_extruder example_validate_env = True"
  by (simp_all add: example_validate_env_def)


lemma example_extruders: "extruders (example_print\<lparr>m_config := cfg\<rparr>) = [0, 1]"
  by (simp add: extruders_def object_extruders_def support_material_extruders_def
      sort_remove_duplicates_def example_print_fields example_object_fields
      example_region_fields)


lemma example_print_config [simp]: "example_print\<lparr>m_config := example_config\<rparr> = example_print"
  by (simp add: example_print_def)




section \<open>Invalidation by changed configuration keys: the results\<close>

lemma set_all_PrintSteps: "set all_PrintSteps = UNIV"
proof -
  have "s \<in> set all_PrintSteps" for s by (cases s) (simp_all add: all_PrintSteps_def)
  then show ?thesis by auto
qed

lemma Inherited_invalidate_step_eq:
  "Inherited_invalidate_step step p =
     (m_state p step \<noteq> Invalidated, p\<lparr>m_state := (m_state p)(step := Invalidated)\<rparr>)"
  by (simp add: Inherited_invalidate_step_def PrintState_invalidate_def)

lemma invalidate_all_steps_eq:
  "invalidate_all_steps p = ((\<exists>s. m_state p s \<noteq> Invalidated), all_invalidated p)"
  by (simp add: invalidate_all_steps_def PrintState_invalidate_all_def set_all_PrintSteps
      list_ex_iff all_invalidated_def)

lemma invalidate_step_eq:
  "invalidate_step step p =
     (m_state p step \<noteq> Invalidated \<or> m_state p psGCodeExport \<noteq> Invalidated,
      p\<lparr>m_state := (m_state p)(step := Invalidated, psGCodeExport := Invalidated)\<rparr>)"
  by (auto simp: invalidate_step_def Inherited_invalidate_step_eq)

lemma classify_opt_key_eq:
  "classify_opt_key k (steps, osteps, ivd, p) =
     (steps @ key_steps k, osteps @ key_osteps k,
      ivd \<or> (unknown_key k \<and> (\<exists>s. m_state p s \<noteq> Invalidated)),
      if unknown_key k then all_invalidated p else p)"
  by (simp add: classify_opt_key_def key_steps_def key_osteps_def unknown_key_def
      invalidate_all_steps_eq)

lemma all_invalidated_idem [simp]: "all_invalidated (all_invalidated p) = all_invalidated p"
  by (simp add: all_invalidated_def)

lemma m_state_all_invalidated [simp]: "m_state (all_invalidated p) s = Invalidated"
  by (simp add: all_invalidated_def)

lemma opt_keys_loop_eq:
  "opt_keys_loop ks (steps, osteps, ivd, p) =
     (steps @ concat (map key_steps ks), osteps @ concat (map key_osteps ks),
      ivd \<or> (list_ex unknown_key ks \<and> (\<exists>s. m_state p s \<noteq> Invalidated)),
      if list_ex unknown_key ks then all_invalidated p else p)"
proof (induction ks arbitrary: steps osteps ivd p)
  case Nil
  then show ?case by simp
next
  case (Cons k ks)
  show ?case
    by (cases "unknown_key k") (auto simp: classify_opt_key_eq Cons.IH)
qed

lemma distinct_remdups_adj_sorted: "sorted xs \<Longrightarrow> distinct (remdups_adj xs)"
  by (induction xs rule: remdups_adj.induct) (auto split: if_split_asm)

lemma sort_remove_duplicates_eq:
  "sort_remove_duplicates vec = sorted_list_of_set (set vec)"
proof -
  have "sorted (sort_remove_duplicates vec)" "distinct (sort_remove_duplicates vec)"
    "set (sort_remove_duplicates vec) = set vec"
    by (simp_all add: sort_remove_duplicates_def distinct_remdups_adj_sorted)
  then show ?thesis
    by (metis finite_set sorted_list_of_set.idem_if_sorted_distinct)
qed

lemma sort_remove_duplicates_cong:
  "set xs = set ys \<Longrightarrow> sort_remove_duplicates xs = sort_remove_duplicates ys"
  by (simp add: sort_remove_duplicates_eq)


lemma invalidate_steps_loop_m_state:
  "m_state (snd (invalidate_steps_loop ss (b, p))) x =
     (if x \<in> set ss \<or> (ss \<noteq> [] \<and> x = psGCodeExport) then Invalidated else m_state p x)"
proof (induction ss arbitrary: b p)
  case Nil
  then show ?case by simp
next
  case (Cons s ss)
  show ?case by (simp add: invalidate_step_eq Cons.IH)
qed

lemma invalidate_steps_loop_m_objects:
  "m_objects (snd (invalidate_steps_loop ss (b, p))) = m_objects p"
proof (induction ss arbitrary: b p)
  case Nil
  then show ?case by simp
next
  case (Cons s ss)
  show ?case by (simp add: invalidate_step_eq Cons.IH)
qed

lemma PrintObject_invalidate_step_m_state:
  "m_state (snd (PrintObject_invalidate_step ostep i p)) x =
     (if x = psGCodeExport then Invalidated else m_state p x)"
  by (simp add: PrintObject_invalidate_step_def invalidate_step_eq PrintState_invalidate_def Let_def)

lemma invalidate_objects_loop_m_state:
  "m_state (snd (invalidate_objects_loop ostep idxs (b, p))) x =
     (if idxs \<noteq> [] \<and> x = psGCodeExport then Invalidated else m_state p x)"
proof (induction idxs arbitrary: b p)
  case Nil
  then show ?case by simp
next
  case (Cons i idxs)
  obtain c q where q: "PrintObject_invalidate_step ostep i p = (c, q)" by force
  have "m_state q y = (if y = psGCodeExport then Invalidated else m_state p y)" for y
    using PrintObject_invalidate_step_m_state[of ostep i p y] q by simp
  then show ?case by (simp add: q Cons.IH)
qed

lemma PrintObject_invalidate_step_length:
  "length (m_objects (snd (PrintObject_invalidate_step ostep i p))) = length (m_objects p)"
  by (simp add: PrintObject_invalidate_step_def invalidate_step_eq PrintState_invalidate_def Let_def)

lemma invalidate_objects_loop_length:
  "length (m_objects (snd (invalidate_objects_loop ostep idxs (b, p)))) = length (m_objects p)"
proof (induction idxs arbitrary: b p)
  case Nil
  then show ?case by simp
next
  case (Cons i idxs)
  obtain c q where q: "PrintObject_invalidate_step ostep i p = (c, q)" by force
  have "length (m_objects q) = length (m_objects p)"
    using PrintObject_invalidate_step_length[of ostep i p] q by simp
  then show ?case by (simp add: q Cons.IH)
qed

lemma invalidate_osteps_loop_m_state:
  "m_state (snd (invalidate_osteps_loop osteps (b, p))) x =
     (if osteps \<noteq> [] \<and> m_objects p \<noteq> [] \<and> x = psGCodeExport then Invalidated
      else m_state p x)"
proof (induction osteps arbitrary: b p)
  case Nil
  then show ?case by simp
next
  case (Cons ostep osteps)
  obtain c q where q: "invalidate_objects_loop ostep [0..<length (m_objects p)] (b, p) = (c, q)"
    by force
  have m: "m_state q y = (if m_objects p \<noteq> [] \<and> y = psGCodeExport then Invalidated
                          else m_state p y)" for y
    using invalidate_objects_loop_m_state[of ostep "[0..<length (m_objects p)]" b p y] q by simp
  have l: "length (m_objects q) = length (m_objects p)"
    using invalidate_objects_loop_length[of ostep "[0..<length (m_objects p)]" b p] q by simp
  then have e: "(m_objects q = []) = (m_objects p = [])" by (metis length_0_conv)
  show ?case by (simp add: q Cons.IH m e)
qed

text \<open>The job-level statuses after one batch.\<close>

lemma sort_remove_duplicates_set [simp]: "set (sort_remove_duplicates vec) = set vec"
  by (simp add: sort_remove_duplicates_def)

lemma sort_remove_duplicates_Nil [simp]: "sort_remove_duplicates vec = [] \<longleftrightarrow> vec = []"
proof -
  have "set (sort_remove_duplicates vec) = {} \<longleftrightarrow> set vec = {}" by simp
  then show ?thesis unfolding set_empty .
qed

lemma batch_unfold:
  assumes "ks \<noteq> []"
  shows "invalidate_state_by_config_options ks p =
     invalidate_osteps_loop (sort_remove_duplicates (batch_osteps ks))
       (invalidate_steps_loop (sort_remove_duplicates (batch_steps ks))
          (list_ex unknown_key ks \<and> (\<exists>s. m_state p s \<noteq> Invalidated),
           if list_ex unknown_key ks then all_invalidated p else p))"
  using assms
  by (simp add: invalidate_state_by_config_options_def opt_keys_loop_eq batch_steps_def
      batch_osteps_def)

lemma batch_m_state:
  "m_state (snd (invalidate_state_by_config_options ks p)) x =
     (if list_ex unknown_key ks \<or> x \<in> set (batch_steps ks)
         \<or> (x = psGCodeExport \<and> (batch_steps ks \<noteq> []
               \<or> (batch_osteps ks \<noteq> [] \<and> m_objects p \<noteq> [])))
      then Invalidated else m_state p x)"
proof (cases "ks = []")
  case True
  then show ?thesis
    by (simp add: invalidate_state_by_config_options_def batch_steps_def batch_osteps_def)
next
  case False
  define P0 where "P0 = (if list_ex unknown_key ks then all_invalidated p else p)"
  define B0 where "B0 \<longleftrightarrow> list_ex unknown_key ks \<and> (\<exists>s. m_state p s \<noteq> Invalidated)"
  define S where "S = sort_remove_duplicates (batch_steps ks)"
  define OS where "OS = sort_remove_duplicates (batch_osteps ks)"
  obtain c q where q: "invalidate_steps_loop S (B0, P0) = (c, q)" by force
  have r: "invalidate_state_by_config_options ks p = invalidate_osteps_loop OS (c, q)"
    by (simp only: batch_unfold[OF False] q[unfolded P0_def B0_def S_def] OS_def)
  have qs: "m_state q y = (if y \<in> set S \<or> (S \<noteq> [] \<and> y = psGCodeExport) then Invalidated
        else m_state P0 y)" for y
    using invalidate_steps_loop_m_state[of S B0 P0 y] by (simp add: q)
  have qo: "m_objects q = m_objects P0"
    using invalidate_steps_loop_m_objects[of S B0 P0] by (simp add: q)
  have P0o: "m_objects P0 = m_objects p" by (simp add: P0_def all_invalidated_def)
  have P0s: "m_state P0 y = (if list_ex unknown_key ks then Invalidated else m_state p y)" for y
    by (simp add: P0_def)
  have S: "set S = set (batch_steps ks)" "S = [] \<longleftrightarrow> batch_steps ks = []"
    by (simp_all add: S_def)
  have OS: "OS = [] \<longleftrightarrow> batch_osteps ks = []" by (simp add: OS_def)
  show ?thesis
    by (simp add: r invalidate_osteps_loop_m_state qs qo P0o P0s S OS)
qed



lemma batch_steps_gcode_only:
  assumes "\<forall>k\<in>set ks. k \<in> set steps_gcode" "ks \<noteq> []"
  shows "sort_remove_duplicates (batch_steps ks) = [psGCodeExport]"
    and "batch_osteps ks = []" and "\<not> list_ex unknown_key ks"
proof -
  have s: "set (batch_steps ks) = {psGCodeExport}"
    using assms by (auto simp: batch_steps_def key_steps_def)
  show "sort_remove_duplicates (batch_steps ks) = [psGCodeExport]"
    by (simp add: sort_remove_duplicates_eq s)
  show "batch_osteps ks = []"
    using assms by (simp add: batch_osteps_def key_osteps_def)
  show "\<not> list_ex unknown_key ks"
    using assms by (auto simp: list_ex_iff unknown_key_def)
qed

lemma batch_gcode_only_result:
  assumes "\<forall>k\<in>set ks. k \<in> set steps_gcode" "ks \<noteq> []"
  shows "invalidate_state_by_config_options ks p =
           (m_state p psGCodeExport \<noteq> Invalidated,
            p\<lparr>m_state := (m_state p)(psGCodeExport := Invalidated)\<rparr>)"
proof -
  have e: "sort_remove_duplicates ([] :: PrintObjectStep list) = []"
    by (simp add: sort_remove_duplicates_def)
  show ?thesis
    using batch_steps_gcode_only[OF assms]
    by (simp add: batch_unfold[OF assms(2)] invalidate_step_eq e)
qed

lemma batch_mono:
  "m_state p s = Invalidated \<Longrightarrow>
   m_state (snd (invalidate_state_by_config_options ks p)) s = Invalidated"
  by (simp add: batch_m_state)

lemma batch_cascade:
  assumes "s \<noteq> psGCodeExport"
    and "m_state (snd (invalidate_state_by_config_options ks p)) s = Invalidated"
    and "m_state p s \<noteq> Invalidated"
  shows "m_state (snd (invalidate_state_by_config_options ks p)) psGCodeExport = Invalidated"
proof -
  from assms have "list_ex unknown_key ks \<or> s \<in> set (batch_steps ks)"
    by (simp add: batch_m_state split: if_splits)
  then have "list_ex unknown_key ks \<or> batch_steps ks \<noteq> []" by auto
  then show ?thesis by (auto simp: batch_m_state)
qed

lemma apply_batches_Cons:
  "apply_batches (ks # batches) p =
     apply_batches batches (snd (invalidate_state_by_config_options ks p))"
  by (simp add: apply_batches_def)

lemma apply_batches_mono:
  "m_state p s = Invalidated \<Longrightarrow> m_state (apply_batches batches p) s = Invalidated"
proof (induction batches arbitrary: p)
  case Nil
  then show ?case by (simp add: apply_batches_def)
next
  case (Cons ks batches)
  show ?case
    unfolding apply_batches_Cons
    by (rule Cons.IH) (rule batch_mono[OF Cons.prems])
qed

lemma apply_batches_cascade:
  assumes "s \<noteq> psGCodeExport"
  shows "m_state (apply_batches batches p) s = Invalidated \<Longrightarrow> m_state p s \<noteq> Invalidated
         \<Longrightarrow> m_state (apply_batches batches p) psGCodeExport = Invalidated"
proof (induction batches arbitrary: p)
  case Nil
  then show ?case by (simp add: apply_batches_def)
next
  case (Cons ks batches)
  let ?p1 = "snd (invalidate_state_by_config_options ks p)"
  show ?case
  proof (cases "m_state ?p1 s = Invalidated")
    case True
    then have "m_state ?p1 psGCodeExport = Invalidated"
      using batch_cascade[OF assms _ Cons.prems(2)] by simp
    then show ?thesis
      unfolding apply_batches_Cons by (rule apply_batches_mono)
  next
    case False
    show ?thesis
      unfolding apply_batches_Cons
      using Cons.IH[of ?p1] Cons.prems(1) False by (simp add: apply_batches_Cons)
  qed
qed

lemma cascade_invariant_iff:
  "cascade_invariant p \<longleftrightarrow>
     ((\<exists>s. s \<noteq> psGCodeExport \<and> m_state p s = Invalidated)
        \<longrightarrow> m_state p psGCodeExport = Invalidated)"
  by (simp add: cascade_invariant_def list_ex_iff set_all_PrintSteps)

text \<open>
  C1. Invalidating a print-level step other than the G-code export step also invalidates
  the export step, in every state reached by a sequence of batches of changed keys; a
  step other than the export step that such a sequence has invalidated leaves the export
  step Invalidated; and the cascade invariant is kept by every sequence of batches.
\<close>

theorem invalidate_step_cascades_to_export:
  "(step \<noteq> psGCodeExport \<longrightarrow>
      m_state (snd (invalidate_step step (apply_batches batches p))) step = Invalidated
      \<and> m_state (snd (invalidate_step step (apply_batches batches p))) psGCodeExport
          = Invalidated)
   \<and> (step \<noteq> psGCodeExport \<and> m_state (apply_batches batches p) step = Invalidated
        \<and> m_state p step \<noteq> Invalidated
      \<longrightarrow> m_state (apply_batches batches p) psGCodeExport = Invalidated)
   \<and> (cascade_invariant p \<longrightarrow> cascade_invariant (apply_batches batches p))"
proof (intro conjI impI)
  show "m_state (snd (invalidate_step step (apply_batches batches p))) step = Invalidated"
    by (simp add: invalidate_step_eq)
  show "m_state (snd (invalidate_step step (apply_batches batches p))) psGCodeExport
          = Invalidated"
    by (simp add: invalidate_step_eq)
next
  assume "step \<noteq> psGCodeExport \<and> m_state (apply_batches batches p) step = Invalidated
        \<and> m_state p step \<noteq> Invalidated"
  then show "m_state (apply_batches batches p) psGCodeExport = Invalidated"
    using apply_batches_cascade by blast
next
  assume inv: "cascade_invariant p"
  show "cascade_invariant (apply_batches batches p)"
    unfolding cascade_invariant_iff
  proof
    assume "\<exists>s. s \<noteq> psGCodeExport \<and> m_state (apply_batches batches p) s = Invalidated"
    then obtain s where s: "s \<noteq> psGCodeExport"
      "m_state (apply_batches batches p) s = Invalidated" by blast
    show "m_state (apply_batches batches p) psGCodeExport = Invalidated"
    proof (cases "m_state p s = Invalidated")
      case True
      with inv s(1) have "m_state p psGCodeExport = Invalidated"
        unfolding cascade_invariant_iff by blast
      then show ?thesis by (rule apply_batches_mono)
    next
      case False
      then show ?thesis using apply_batches_cascade[OF s(1) s(2)] by simp
    qed
  qed
qed

lemma example_two_batches:
  "apply_batches [[''skirts''], [''bed_temperature'']] example_print =
     example_print\<lparr>m_state := (\<lambda>_. Done)(psSkirtBrim := Invalidated,
                                              psGCodeExport := Invalidated)\<rparr>"
proof -
  have 1: "invalidate_state_by_config_options [''skirts''] example_print =
      (True, example_print\<lparr>m_state := (\<lambda>_. Done)(psSkirtBrim := Invalidated,
                                              psGCodeExport := Invalidated)\<rparr>)"
    by (simp add: batch_unfold batch_steps_def batch_osteps_def key_steps_def key_osteps_def
        unknown_key_def steps_gcode_def steps_ignore_def keys_psSkirtBrim_def
        sort_remove_duplicates_def invalidate_step_eq example_print_def)
  have g: "\<forall>k\<in>set [''bed_temperature'']. k \<in> set steps_gcode"
    by (simp add: steps_gcode_def)
  show ?thesis
    by (simp add: apply_batches_def 1 batch_gcode_only_result[OF g])
qed

theorem invalidate_step_cascades_to_export_witness:
  "psSkirtBrim \<noteq> psGCodeExport
   \<and> m_state (snd (invalidate_step psSkirtBrim
        (apply_batches [[''skirts''], [''bed_temperature'']] example_print))) psGCodeExport
       = Invalidated
   \<and> m_state (apply_batches [[''skirts''], [''bed_temperature'']] example_print) psSkirtBrim
       = Invalidated
   \<and> m_state example_print psSkirtBrim \<noteq> Invalidated
   \<and> m_state (apply_batches [[''skirts''], [''bed_temperature'']] example_print) psGCodeExport
       = Invalidated
   \<and> cascade_invariant example_print
   \<and> cascade_invariant (apply_batches [[''skirts''], [''bed_temperature'']] example_print)"
proof -
  have c: "cascade_invariant example_print"
    by (simp add: cascade_invariant_def example_print_def all_PrintSteps_def)
  have s: "m_state (apply_batches [[''skirts''], [''bed_temperature'']] example_print)
             psSkirtBrim = Invalidated"
    by (simp add: example_two_batches)
  have d: "m_state example_print psSkirtBrim \<noteq> Invalidated"
    by (simp add: example_print_def)
  show ?thesis
    using invalidate_step_cascades_to_export
      [of psSkirtBrim "[[''skirts''], [''bed_temperature'']]" example_print] c s d
    by simp
qed





text \<open>
  C3. A batch whose keys are all in the G-code-only set leaves every entity and every
  job-level step other than the export step as they were; when the batch is not empty, the
  export step is Invalidated afterwards, and the returned flag tells whether that changed
  it.
\<close>

theorem gcode_only_batch_invalidates_export_only:
  assumes "\<forall>k\<in>set ks. k \<in> set steps_gcode"
  shows "m_objects (snd (invalidate_state_by_config_options ks p)) = m_objects p
    \<and> (\<forall>s. s \<noteq> psGCodeExport \<longrightarrow>
          m_state (snd (invalidate_state_by_config_options ks p)) s = m_state p s)
    \<and> (ks \<noteq> [] \<longrightarrow>
          m_state (snd (invalidate_state_by_config_options ks p)) psGCodeExport = Invalidated
          \<and> fst (invalidate_state_by_config_options ks p)
              = (m_state p psGCodeExport \<noteq> Invalidated))"
proof (cases "ks = []")
  case True
  then show ?thesis by (simp add: invalidate_state_by_config_options_def)
next
  case False
  show ?thesis
    by (simp add: batch_gcode_only_result[OF assms False] False)
qed

theorem gcode_only_batch_invalidates_export_only_witness:
  "''bed_temperature'' \<in> set steps_gcode
   \<and> m_objects (snd (invalidate_state_by_config_options [''bed_temperature''] example_print))
       = [example_object]
   \<and> m_state (snd (invalidate_state_by_config_options [''bed_temperature''] example_print))
       psSkirtBrim = Done
   \<and> m_state (snd (invalidate_state_by_config_options [''bed_temperature''] example_print))
       psWipeTower = Done
   \<and> m_state (snd (invalidate_state_by_config_options [''bed_temperature''] example_print))
       psGCodeExport = Invalidated
   \<and> fst (invalidate_state_by_config_options [''bed_temperature''] example_print)"
proof -
  have g: "\<forall>k\<in>set [''bed_temperature'']. k \<in> set steps_gcode"
    by (simp add: steps_gcode_def)
  show ?thesis
    using gcode_only_batch_invalidates_export_only [OF g, of example_print] g
    by (simp add: example_print_def)
qed

text \<open>
  C4. \<^verbatim>\<open>Print::is_step_done\<close> on an entity-level step is true exactly when the job has at
  least one entity and every entity reports the step Done; on a job with no entities it
  is false.
\<close>

theorem is_step_done_iff:
  "(is_step_done p step \<longleftrightarrow>
      m_objects p \<noteq> [] \<and> (\<forall>object\<in>set (m_objects p). o_state object step = Done))
   \<and> (m_objects p = [] \<longrightarrow> \<not> is_step_done p step)"
proof -
  have "is_step_done_loop objects step \<longleftrightarrow> (\<forall>object\<in>set objects. o_state object step = Done)"
    for objects
    by (induction objects) (auto simp: is_done_unguarded_def)
  then show ?thesis by (simp add: is_step_done_def)
qed

theorem is_step_done_iff_witness:
  "is_step_done example_print posSlice
   \<and> m_objects example_print \<noteq> []
   \<and> o_state example_object posSlice = Done
   \<and> m_objects (example_print\<lparr>m_objects := []\<rparr>) = []
   \<and> \<not> is_step_done (example_print\<lparr>m_objects := []\<rparr>) posSlice"
  using is_step_done_iff [of example_print posSlice]
    is_step_done_iff [of "example_print\<lparr>m_objects := []\<rparr>" posSlice]
  by (simp add: example_print_def example_object_def)

text \<open>
  C8. Two batches with the same set of keys, in any order and with any repetitions, give
  the same returned flag and the same statuses (the same print) afterwards.
\<close>

theorem invalidate_state_order_independent:
  assumes "set xs = set ys"
  shows "invalidate_state_by_config_options xs p = invalidate_state_by_config_options ys p"
proof -
  have e: "(xs = []) = (ys = [])" using assms by auto
  have u: "list_ex unknown_key xs = list_ex unknown_key ys"
    using assms by (simp add: list_ex_iff)
  have s: "sort_remove_duplicates (concat (map key_steps xs)) =
           sort_remove_duplicates (concat (map key_steps ys))"
    using assms by (intro sort_remove_duplicates_cong) simp
  have os: "sort_remove_duplicates (concat (map key_osteps xs)) =
           sort_remove_duplicates (concat (map key_osteps ys))"
    using assms by (intro sort_remove_duplicates_cong) simp
  show ?thesis
    by (simp add: invalidate_state_by_config_options_def opt_keys_loop_eq e u s os)
qed

theorem invalidate_state_order_independent_witness:
  "set [''skirts'', ''bed_temperature'', ''skirts''] = set [''bed_temperature'', ''skirts'']
   \<and> invalidate_state_by_config_options [''skirts'', ''bed_temperature'', ''skirts'']
        example_print
     = invalidate_state_by_config_options [''bed_temperature'', ''skirts''] example_print"
proof -
  have h: "set [''skirts'', ''bed_temperature'', ''skirts'']
             = set [''bed_temperature'', ''skirts'']" by auto
  show ?thesis
    using invalidate_state_order_independent [OF h, of example_print] h by simp
qed

text \<open>
  C9. For the empty batch, \<^verbatim>\<open>invalidate_state_by_config_options\<close> returns false and
  leaves the print, with every job-level and entity-level status, as it was.
\<close>

theorem empty_batch_changes_nothing:
  "invalidate_state_by_config_options [] p = (False, p)"
  by (simp add: invalidate_state_by_config_options_def)

theorem empty_batch_changes_nothing_witness:
  "invalidate_state_by_config_options [] example_print = (False, example_print)"
  using empty_batch_changes_nothing [of example_print] by simp

section \<open>Validation: the results\<close>




lemma validate_object_heights_widths_unfold:
  "\<exists>first_layer_min_nozzle_diameter.
     validate_object_heights_widths p min_nd max_nd object =
       (if first_layer_height (m_config p) > first_layer_min_nozzle_diameter
          then Some Err_first_layer_height
        else if layer_height (o_config object) > min_nd
          then Some Err_layer_height
        else
          (case validate_extrusion_width max_nd (o_config object)
                  ''extrusion_width'' (layer_height (o_config object)) of
             Some err_msg \<Rightarrow> Some err_msg
           | None \<Rightarrow>
              (case (if has_support object \<or> has_raft object
                     then validate_extrusion_width max_nd (o_config object)
                            ''support_material_extrusion_width'' (layer_height (o_config object))
                     else None) of
                 Some err_msg \<Rightarrow> Some err_msg
               | None \<Rightarrow>
                   validate_region_keys_loop max_nd (layer_height (o_config object))
                     (all_regions object) region_extrusion_width_keys)))"
  unfolding validate_object_heights_widths_def Let_def
  by (rule exI) (rule refl)







lemma validate_extrusion_width_not_wipe_tower:
  "validate_extrusion_width max_nd config opt_key lh = Some e \<Longrightarrow> \<not> is_wipe_tower_error e"
  by (auto simp: validate_extrusion_width_def Let_def split: if_splits)

lemma validate_regions_loop_not_wipe_tower:
  "validate_regions_loop max_nd opt_key lh regions = Some e \<Longrightarrow> \<not> is_wipe_tower_error e"
  by (induction regions)
    (auto split: option.splits dest: validate_extrusion_width_not_wipe_tower)

lemma validate_region_keys_loop_not_wipe_tower:
  "validate_region_keys_loop max_nd lh regions opt_keys = Some e \<Longrightarrow> \<not> is_wipe_tower_error e"
  by (induction opt_keys)
    (auto split: option.splits dest: validate_regions_loop_not_wipe_tower)

lemma validate_object_heights_widths_not_wipe_tower:
  assumes "validate_object_heights_widths p min_nd max_nd object = Some e"
  shows "\<not> is_wipe_tower_error e"
proof -
  let ?lh = "layer_height (o_config object)"
  let ?w1 = "validate_extrusion_width max_nd (o_config object) ''extrusion_width'' ?lh"
  let ?w2 = "if has_support object \<or> has_raft object
             then validate_extrusion_width max_nd (o_config object)
                    ''support_material_extrusion_width'' ?lh
             else None"
  let ?w3 = "validate_region_keys_loop max_nd ?lh (all_regions object)
               region_extrusion_width_keys"
  obtain fl where "validate_object_heights_widths p min_nd max_nd object =
       (if first_layer_height (m_config p) > fl then Some Err_first_layer_height
        else if ?lh > min_nd then Some Err_layer_height
        else (case ?w1 of Some err_msg \<Rightarrow> Some err_msg
              | None \<Rightarrow> (case ?w2 of Some err_msg \<Rightarrow> Some err_msg | None \<Rightarrow> ?w3)))"
    using validate_object_heights_widths_unfold by blast
  then have eq: "(if first_layer_height (m_config p) > fl then Some Err_first_layer_height
        else if ?lh > min_nd then Some Err_layer_height
        else (case ?w1 of Some err_msg \<Rightarrow> Some err_msg
              | None \<Rightarrow> (case ?w2 of Some err_msg \<Rightarrow> Some err_msg | None \<Rightarrow> ?w3)))
        = Some e"
    using assms by (simp only:)
  show ?thesis
  proof (cases "first_layer_height (m_config p) > fl")
    case True
    then have "e = Err_first_layer_height" using eq by (simp only: if_True option.inject)
    then show ?thesis by simp
  next
    case f1: False
    show ?thesis
    proof (cases "?lh > min_nd")
      case True
      then have "e = Err_layer_height"
        using eq f1 by (simp only: if_True if_False option.inject)
      then show ?thesis by simp
    next
      case f2: False
      have eq2: "(case ?w1 of Some err_msg \<Rightarrow> Some err_msg
              | None \<Rightarrow> (case ?w2 of Some err_msg \<Rightarrow> Some err_msg | None \<Rightarrow> ?w3)) = Some e"
        using eq f1 f2 by (simp only: if_False)
      show ?thesis
      proof (cases ?w1)
        case (Some e1)
        then have "e1 = e" using eq2 by (simp only: option.case option.inject)
        then show ?thesis using Some validate_extrusion_width_not_wipe_tower by blast
      next
        case n1: None
        have eq3: "(case ?w2 of Some err_msg \<Rightarrow> Some err_msg | None \<Rightarrow> ?w3) = Some e"
          using eq2 n1 by (simp only: option.case)
        show ?thesis
        proof (cases ?w2)
          case (Some e2)
          then have e2: "e2 = e" using eq3 by (simp only: option.case option.inject)
          have "validate_extrusion_width max_nd (o_config object)
                    ''support_material_extrusion_width'' ?lh = Some e"
            using Some e2 by (cases "has_support object \<or> has_raft object") simp_all
          then show ?thesis by (rule validate_extrusion_width_not_wipe_tower)
        next
          case n2: None
          have "?w3 = Some e" using eq3 n2 by (simp only: option.case)
          then show ?thesis by (rule validate_region_keys_loop_not_wipe_tower)
        qed
      qed
    qed
  qed
qed

lemma validate_object_support_wipe_tower:
  "validate_object_support env p min_nd max_nd object = Some e \<Longrightarrow> is_wipe_tower_error e
   \<Longrightarrow> has_wipe_tower p"
  by (auto simp: validate_object_support_def split: if_splits)

lemma validate_objects_loop_wipe_tower:
  "fst (validate_objects_loop env p min_nd max_nd warning objects written) = Some e
   \<Longrightarrow> is_wipe_tower_error e \<Longrightarrow> has_wipe_tower p"
proof (induction objects arbitrary: written)
  case Nil
  then show ?case by simp
next
  case (Cons object objects)
  show ?case
  proof (cases "validate_object_support env p min_nd max_nd object")
    case (Some e')
    then have "e' = e" using Cons.prems(1) by simp
    then show ?thesis using Some Cons.prems(2) validate_object_support_wipe_tower by blast
  next
    case None
    show ?thesis
    proof (cases "validate_object_heights_widths p min_nd max_nd object")
      case (Some e')
      then have "e' = e" using Cons.prems(1) None by (simp add: Let_def)
      then show ?thesis
        using Some Cons.prems(2) validate_object_heights_widths_not_wipe_tower by blast
    next
      case n: None
      from Cons.prems(1) None n obtain written' where
        "fst (validate_objects_loop env p min_nd max_nd warning objects written') = Some e"
        by (simp add: Let_def)
      then show ?thesis using Cons.IH Cons.prems(2) by blast
    qed
  qed
qed

lemma validate_options_not_wipe_tower:
  "validate_options env p exts = Some e \<Longrightarrow> \<not> is_wipe_tower_error e"
  by (auto simp: validate_options_def split: if_splits)

lemma validate_max_print_height_not_wipe_tower:
  "validate_max_print_height env p objects = Some e \<Longrightarrow> \<not> is_wipe_tower_error e"
  by (induction objects) (auto simp: Let_def split: if_splits)

lemma validate_organic_layering_not_wipe_tower:
  "validate_organic_layering objects = Some e \<Longrightarrow> \<not> is_wipe_tower_error e"
  by (induction objects) (auto split: if_splits)

lemma validate_layer_gcode_not_wipe_tower:
  "validate_layer_gcode env p = Some e \<Longrightarrow> \<not> is_wipe_tower_error e"
  by (auto simp: validate_layer_gcode_def split: if_splits)

lemma validate_wipe_tower_gate:
  "\<not> has_wipe_tower p \<Longrightarrow> validate_wipe_tower env p exts custom = None"
  by (simp add: validate_wipe_tower_def)

lemma validate_wipe_tower_error:
  assumes "fst (validate env warning p) = Some e" and "is_wipe_tower_error e"
  shows "has_wipe_tower p"
proof (rule ccontr)
  assume n: "\<not> has_wipe_tower p"
  let ?exts = "extruders p"
  obtain mn mx where r: "nozzle_diameters_loop (m_config p) ?exts (DBL_MAX, 0) = (mn, mx)"
    by force
  have 1: "validate_options env p ?exts = None"
    using assms validate_options_not_wipe_tower[of env p ?exts]
    by (cases "validate_options env p ?exts") (auto simp: validate_def Let_def)
  have 2: "validate_max_print_height env p (m_objects p) = None"
    using assms 1 validate_max_print_height_not_wipe_tower[of env p "m_objects p"]
    by (cases "validate_max_print_height env p (m_objects p)") (auto simp: validate_def Let_def)
  have 3: "validate_organic_layering (m_objects p) = None"
    using assms 1 2 validate_organic_layering_not_wipe_tower[of "m_objects p"]
    by (cases "validate_organic_layering (m_objects p)") (auto simp: validate_def Let_def)
  have 4: "validate_wipe_tower env p ?exts (list_ex has_custom_layering (m_objects p)) = None"
    using n by (rule validate_wipe_tower_gate)
  obtain l w where l: "validate_objects_loop env p mn mx warning (m_objects p) None = (l, w)"
    by force
  show False
  proof (cases l)
    case None
    then have "validate_layer_gcode env p = Some e"
      using assms(1) 1 2 3 4 r l by (simp add: validate_def Let_def)
    then show False using assms(2) validate_layer_gcode_not_wipe_tower by blast
  next
    case (Some e')
    then have "e' = e" using assms(1) 1 2 3 4 r l by (simp add: validate_def Let_def)
    then have "fst (validate_objects_loop env p mn mx warning (m_objects p) None) = Some e"
      using l Some by simp
    then show False using n assms(2) validate_objects_loop_wipe_tower by blast
  qed
qed

text \<open>
  C10. \<^verbatim>\<open>Print::has_wipe_tower\<close> is true exactly when spiral vase is off, the wipe tower is
  enabled and more than one nozzle diameter is configured. Without it the wipe tower block
  of \<^verbatim>\<open>Print::validate\<close> raises nothing, \<^verbatim>\<open>Print::validate\<close> returns none of the wipe tower
  messages, and \<^verbatim>\<open>Print::_make_wipe_tower\<close> only clears the wipe tower data and plans
  nothing.
\<close>

theorem has_wipe_tower_gates_validation_and_planning:
  "(has_wipe_tower p \<longleftrightarrow>
      \<not> spiral_vase (m_config p) \<and> wipe_tower (m_config p)
      \<and> length (nozzle_diameter (m_config p)) > 1)
   \<and> (\<not> has_wipe_tower p \<longrightarrow> validate_wipe_tower env p exts custom = None)
   \<and> (fst (validate env warning p) = Some e \<and> is_wipe_tower_error e \<longrightarrow> has_wipe_tower p)
   \<and> (\<not> has_wipe_tower p \<longrightarrow>
        make_wipe_tower wenv w p =
          Inr (p\<lparr>m_wipe_tower_data := WipeTowerData_clear (m_wipe_tower_data p)\<rparr>, [], w))"
proof (intro conjI impI)
  show "has_wipe_tower p \<longleftrightarrow>
      \<not> spiral_vase (m_config p) \<and> wipe_tower (m_config p)
      \<and> length (nozzle_diameter (m_config p)) > 1"
    by (simp add: has_wipe_tower_def)
  show "\<not> has_wipe_tower p \<Longrightarrow> validate_wipe_tower env p exts custom = None"
    by (rule validate_wipe_tower_gate)
  show "fst (validate env warning p) = Some e \<and> is_wipe_tower_error e \<Longrightarrow> has_wipe_tower p"
    using validate_wipe_tower_error by blast
  show "\<not> has_wipe_tower p \<Longrightarrow>
        make_wipe_tower wenv w p =
          Inr (p\<lparr>m_wipe_tower_data := WipeTowerData_clear (m_wipe_tower_data p)\<rparr>, [], w)"
    by (simp add: make_wipe_tower_def has_wipe_tower_def Let_def)
qed

lemma example_absolute_e_validate:
  "fst (validate example_validate_env True example_print_absolute_e)
     = Some Err_wipe_tower_relative_e"
proof -
  let ?p = example_print_absolute_e
  have e: "extruders ?p = [0, 1]"
    by (simp add: example_print_absolute_e_def example_extruders)
  have f: "m_objects ?p = [example_object]"
    "m_config ?p = example_config\<lparr>use_relative_e_distances := False\<rparr>"
    by (simp_all add: example_print_absolute_e_def example_print_fields)
  have 1: "validate_options example_validate_env ?p (extruders ?p) = None"
    by (simp add: e f validate_options_def example_config_fields example_object_fields)
  have 2: "validate_max_print_height example_validate_env ?p (m_objects ?p) = None"
    by (simp add: f example_config_fields example_object_fields example_validate_env_fields)
  have 3: "validate_organic_layering (m_objects ?p) = None"
    by (simp add: f example_object_fields)
  have 4: "validate_wipe_tower example_validate_env ?p (extruders ?p)
     (list_ex has_custom_layering (m_objects ?p)) = Some Err_wipe_tower_relative_e"
    by (simp add: e f validate_wipe_tower_def has_wipe_tower_def
        example_config_fields example_validate_env_fields example_object_fields get_at_def
        abs_quotient_exceeds_def)
  show ?thesis
    by (simp only: validate_def Let_def 1 2 3 4 option.case fst_conv)
qed

theorem has_wipe_tower_gates_validation_and_planning_witness:
  "has_wipe_tower example_print_absolute_e
   \<and> fst (validate example_validate_env True example_print_absolute_e)
       = Some Err_wipe_tower_relative_e
   \<and> is_wipe_tower_error Err_wipe_tower_relative_e
   \<and> \<not> has_wipe_tower example_print_no_wipe_tower
   \<and> validate_wipe_tower example_validate_env example_print_no_wipe_tower [0, 1] False = None
   \<and> make_wipe_tower example_wipe_tower_env () example_print_no_wipe_tower =
       Inr (example_print_no_wipe_tower
              \<lparr>m_wipe_tower_data :=
                 WipeTowerData_clear (m_wipe_tower_data example_print_no_wipe_tower)\<rparr>,
            [], ())"
proof -
  have n: "\<not> has_wipe_tower example_print_no_wipe_tower"
    by (simp add: has_wipe_tower_def example_print_no_wipe_tower_def example_config_fields)
  have i: "is_wipe_tower_error Err_wipe_tower_relative_e" by simp
  have 1: "has_wipe_tower example_print_absolute_e"
    using has_wipe_tower_gates_validation_and_planning
      [of example_print_absolute_e example_validate_env "[0, 1]" False True
          Err_wipe_tower_relative_e example_wipe_tower_env "()"]
      example_absolute_e_validate i
    by blast
  have 2: "validate_wipe_tower example_validate_env example_print_no_wipe_tower [0, 1] False
             = None
     \<and> make_wipe_tower example_wipe_tower_env () example_print_no_wipe_tower =
       Inr (example_print_no_wipe_tower
              \<lparr>m_wipe_tower_data :=
                 WipeTowerData_clear (m_wipe_tower_data example_print_no_wipe_tower)\<rparr>,
            [], ())"
    using has_wipe_tower_gates_validation_and_planning
      [of example_print_no_wipe_tower example_validate_env "[0, 1]" False True
          Err_wipe_tower_relative_e example_wipe_tower_env "()"] n
    by blast
  show ?thesis
    using 1 2 n i example_absolute_e_validate by blast
qed

section \<open>Wipe tower planning: the results\<close>



lemma has_wipe_tower_data_update [simp]:
  "has_wipe_tower (p\<lparr>m_wipe_tower_data := d\<rparr>) = has_wipe_tower p"
  by (simp add: has_wipe_tower_def)










section \<open>Skirt: the results\<close>

text \<open>
  The height of the skirt is defined when every object has a layer and the skirt is
  infinite or at least one layer high.
\<close>

lemma skirt_height_z_loop_defined:
  assumes "\<forall>object\<in>set objects. m_layers object \<noteq> []"
    and "has_infinite_skirt p \<or> (0 < skirt_height (m_config p) \<and> skirt_height (m_config p) < 2 ^ 64)"
  shows "\<exists>z. skirt_height_z_loop p objects z0 = Inr z"
  using assms
proof (induction objects arbitrary: z0)
  case Nil
  then show ?case by simp
next
  case (Cons object objects)
  have "(if has_infinite_skirt p then length (m_layers object)
         else min (size_t_of_int (skirt_height (m_config p))) (length (m_layers object))) \<noteq> 0"
    using Cons.prems by (auto simp: size_t_of_int_def)
  then show ?case using Cons by (simp add: Let_def)
qed




end
